theory Spec2Isabelle
  imports Main "HOL-Library.AList"
begin

section \<open>Values, documents and responses\<close>

text \<open>
  The handlers exchange JSON bodies and MongoDB documents, both dynamically typed
  dictionaries. A value is a \<open>json\<close>; a dictionary is an association list in key order.
  \<open>JTime\<close> is a \<open>datetime\<close> (an instant of the clock), \<open>JOid\<close> an \<open>ObjectId\<close>,
  \<open>JNaN\<close> the \<open>float('nan')\<close> a data frame holds in a blank cell. Numbers are integers.
\<close>

datatype json =
    JNull
  | JBool bool
  | JNum int
  | JStr string
  | JTime nat
  | JOid string
  | JNaN
  | JList "json list"
  | JObj "(string \<times> json) list"

type_synonym doc = "(string \<times> json) list"

text \<open>A response is the HTTP status with the body handed to \<open>jsonify\<close>.\<close>

type_synonym response = "nat \<times> json"

text \<open>\<open>d.get(k, default)\<close> of a Python dictionary.\<close>

definition dget :: "doc \<Rightarrow> string \<Rightarrow> json \<Rightarrow> json" where
  "dget d k dflt = (case map_of d k of None \<Rightarrow> dflt | Some v \<Rightarrow> v)"

text \<open>The field of a JSON object.\<close>

fun jfield :: "json \<Rightarrow> string \<Rightarrow> json option" where
  "jfield (JObj kvs) k = map_of kvs k"
| "jfield _ k = None"

text \<open>Python truthiness of a value.\<close>

fun truthy :: "json \<Rightarrow> bool" where
  "truthy JNull = False"
| "truthy (JBool b) = b"
| "truthy (JNum n) = (n \<noteq> 0)"
| "truthy (JStr s) = (s \<noteq> [])"
| "truthy (JTime t) = True"
| "truthy (JOid s) = True"
| "truthy JNaN = True"
| "truthy (JList xs) = (xs \<noteq> [])"
| "truthy (JObj kvs) = (kvs \<noteq> [])"

text \<open>
  The clock: \<open>datetime.utcnow()\<close> as an instant, with its renderings by
  \<open>strftime("%Y-%m-%d %H:%M:%S")\<close> and \<open>strftime("%Y-%m-%d")\<close>, and the year of
  \<open>datetime.now()\<close>. The readings taken inside one handler are the same instant.
\<close>

record clock =
  utcnow :: nat
  utcnow_text :: string
  utcnow_date :: string
  year :: nat

text \<open>
  The library functions the handlers call: \<open>float\<close>, \<open>int\<close> and
  \<open>datetime.strptime(_, '%Y-%m-%d')\<close>, each \<open>None\<close> where it raises, and bcrypt's
  \<open>hashpw\<close> (with the salt it draws) and \<open>checkpw\<close> (\<open>None\<close> where it raises).
\<close>

record python =
  py_float :: "json \<Rightarrow> json option"
  py_int :: "json \<Rightarrow> json option"
  strptime :: "json \<Rightarrow> json option"
  bcrypt_hashpw :: "string \<Rightarrow> string"
  bcrypt_checkpw :: "string \<Rightarrow> string \<Rightarrow> bool option"

section \<open>Strings\<close>

text \<open>
  Strings are texts over 8-bit characters. \<open>strip\<close> and \<open>lower\<close> are Python's
  \<open>str.strip()\<close> and \<open>str.lower()\<close> on ASCII text.
\<close>

definition is_space :: "char \<Rightarrow> bool" where
  "is_space c = (let n = (of_char c :: nat) in (9 \<le> n \<and> n \<le> 13) \<or> (28 \<le> n \<and> n \<le> 32))"

definition strip :: "string \<Rightarrow> string" where
  "strip s = rev (dropWhile is_space (rev (dropWhile is_space s)))"

definition is_upper :: "char \<Rightarrow> bool" where
  "is_upper c = (let n = (of_char c :: nat) in 65 \<le> n \<and> n \<le> 90)"

definition is_lower :: "char \<Rightarrow> bool" where
  "is_lower c = (let n = (of_char c :: nat) in 97 \<le> n \<and> n \<le> 122)"

definition is_digit :: "char \<Rightarrow> bool" where
  "is_digit c = (let n = (of_char c :: nat) in 48 \<le> n \<and> n \<le> 57)"

definition is_alpha :: "char \<Rightarrow> bool" where
  "is_alpha c = (is_upper c \<or> is_lower c)"

definition lower_char :: "char \<Rightarrow> char" where
  "lower_char c = (if is_upper c then char_of ((of_char c :: nat) + 32) else c)"

definition upper_char :: "char \<Rightarrow> char" where
  "upper_char c = (if is_lower c then char_of ((of_char c :: nat) - 32) else c)"

definition lower :: "string \<Rightarrow> string" where
  "lower s = map lower_char s"

definition upper :: "string \<Rightarrow> string" where
  "upper s = map upper_char s"

text \<open>\<open>sep.join(xs)\<close>.\<close>

fun join :: "string \<Rightarrow> string list \<Rightarrow> string" where
  "join sep [] = []"
| "join sep [x] = x"
| "join sep (x # y # ys) = x @ sep @ join sep (y # ys)"

text \<open>\<open>str(n)\<close> of a number.\<close>

function str_nat :: "nat \<Rightarrow> string" where
  "str_nat n = (if n < 10 then [char_of (48 + n)] else str_nat (n div 10) @ [char_of (48 + n mod 10)])"
  by pat_completeness auto
termination
  by (relation "measure id") auto

definition str_int :: "int \<Rightarrow> string" where
  "str_int i = (if i < 0 then CHR ''-'' # str_nat (nat (- i)) else str_nat (nat i))"

text \<open>
  \<open>str(v)\<close> of a value. The text of a container, a datetime or an ObjectId is shortened
  to a placeholder: the handlers test such a text for blankness only.
\<close>

fun py_str :: "json \<Rightarrow> string" where
  "py_str JNull = ''None''"
| "py_str (JBool b) = (if b then ''True'' else ''False'')"
| "py_str (JNum n) = str_int n"
| "py_str (JStr s) = s"
| "py_str (JTime t) = ''datetime''"
| "py_str (JOid s) = s"
| "py_str JNaN = ''nan''"
| "py_str (JList xs) = ''[...]''"
| "py_str (JObj kvs) = ''{...}''"

text \<open>\<open>v.strip()\<close>: an \<open>AttributeError\<close> (\<open>None\<close>) unless \<open>v\<close> is a string.\<close>

fun str_strip :: "json \<Rightarrow> string option" where
  "str_strip (JStr s) = Some (strip s)"
| "str_strip _ = None"

text \<open>\<open>sub in s\<close> on strings, and \<open>s.capitalize()\<close>.\<close>

fun starts_with :: "string \<Rightarrow> string \<Rightarrow> bool" where
  "starts_with [] s = True"
| "starts_with (p # ps) [] = False"
| "starts_with (p # ps) (c # cs) = (p = c \<and> starts_with ps cs)"

fun contains :: "string \<Rightarrow> string \<Rightarrow> bool" where
  "contains sub [] = (sub = [])"
| "contains sub (c # cs) = (starts_with sub (c # cs) \<or> contains sub cs)"

fun capitalize :: "string \<Rightarrow> string" where
  "capitalize [] = []"
| "capitalize (c # cs) = upper_char c # lower cs"

text \<open>\<open>s.split(c)\<close> and \<open>s.zfill(n)\<close>.\<close>

fun split_on :: "char \<Rightarrow> string \<Rightarrow> string list" where
  "split_on c [] = [[]]"
| "split_on c (x # xs) =
     (if x = c then [] # split_on c xs
      else case split_on c xs of
             w # ws \<Rightarrow> (x # w) # ws
           | [] \<Rightarrow> [[x]])"

definition zfill :: "nat \<Rightarrow> string \<Rightarrow> string" where
  "zfill n t = replicate (n - length t) (CHR ''0'') @ t"

text \<open>
  \<open>validate_email\<close>: \<open>re.match\<close> of
  \<^verbatim>\<open>^[a-zA-Z0-9._%+-]+@[a-zA-Z0-9.-]+\.[a-zA-Z]{2,}$\<close>.
  The local part is the text before the first \<open>@\<close>; the top-level domain is the text
  after the last dot. \<open>$\<close> also matches before one final newline.
\<close>

definition is_local_char :: "char \<Rightarrow> bool" where
  "is_local_char c = (is_alpha c \<or> is_digit c \<or> c \<in> set ''._%+-'')"

definition is_domain_char :: "char \<Rightarrow> bool" where
  "is_domain_char c = (is_alpha c \<or> is_digit c \<or> c \<in> set ''.-'')"

definition email_core :: "string \<Rightarrow> bool" where
  "email_core e =
     (let local = takeWhile (\<lambda>c. c \<noteq> CHR ''@'') e
      in case dropWhile (\<lambda>c. c \<noteq> CHR ''@'') e of
           [] \<Rightarrow> False
         | _ # host \<Rightarrow>
             (let tld = takeWhile (\<lambda>c. c \<noteq> CHR ''.'') (rev host)
              in case dropWhile (\<lambda>c. c \<noteq> CHR ''.'') (rev host) of
                   [] \<Rightarrow> False
                 | _ # dpart \<Rightarrow>
                     local \<noteq> [] \<and> list_all is_local_char local
                     \<and> dpart \<noteq> [] \<and> list_all is_domain_char dpart
                     \<and> 2 \<le> length tld \<and> list_all is_alpha tld))"

definition validate_email :: "string \<Rightarrow> bool" where
  "validate_email e =
     (email_core e \<or> (e \<noteq> [] \<and> last e = CHR 0x0A \<and> email_core (butlast e)))"

text \<open>\<open>validate_phone\<close>: \<open>re.match\<close> of \<^verbatim>\<open>^[\+]?[1-9][\d]{0,15}$\<close>.\<close>

definition phone_core :: "string \<Rightarrow> bool" where
  "phone_core p =
     (case (case p of [] \<Rightarrow> [] | c # r \<Rightarrow> if c = CHR ''+'' then r else p) of
        [] \<Rightarrow> False
      | c # r \<Rightarrow> is_digit c \<and> c \<noteq> CHR ''0'' \<and> length r \<le> 15 \<and> list_all is_digit r)"

definition validate_phone :: "string \<Rightarrow> bool" where
  "validate_phone p =
     (phone_core p \<or> (p \<noteq> [] \<and> last p = CHR 0x0A \<and> phone_core (butlast p)))"

section \<open>The persistence store\<close>

text \<open>
  A collection is the list of its documents in insertion order, each under its
  \<open>_id\<close>. \<open>ObjectId(s)\<close> raises \<open>InvalidId\<close> unless \<open>s\<close> is 24 hexadecimal digits;
  \<open>None\<close> stands for the raise.
\<close>

type_synonym collection = "(string \<times> doc) list"

definition is_hex :: "char \<Rightarrow> bool" where
  "is_hex c = (let n = (of_char c :: nat) in
     (48 \<le> n \<and> n \<le> 57) \<or> (65 \<le> n \<and> n \<le> 70) \<or> (97 \<le> n \<and> n \<le> 102))"

definition hex_lower :: "char \<Rightarrow> char" where
  "hex_lower c = (let n = (of_char c :: nat) in
     if 65 \<le> n \<and> n \<le> 70 then char_of (n + 32) else c)"

definition ObjectId :: "string \<Rightarrow> string option" where
  "ObjectId s = (if length s = 24 \<and> list_all is_hex s then Some (map hex_lower s) else None)"

record update_result =
  matched_count :: nat
  modified_count :: nat

text \<open>\<open>$set\<close>: every field of the update is written, in order; a new field is appended.\<close>

definition set_fields :: "doc \<Rightarrow> doc \<Rightarrow> doc" where
  "set_fields upd d = fold (\<lambda>(k, v). AList.update k v) upd d"

text \<open>
  \<open>update_one({'_id': oid}, {'$set': upd})\<close>. The driver reports in \<open>modified_count\<close>
  the documents the write changed: a matched document that already holds every written
  value counts as matched, not as modified.
\<close>

definition update_one :: "collection \<Rightarrow> string \<Rightarrow> doc \<Rightarrow> collection \<times> update_result" where
  "update_one coll oid upd =
     (case map_of coll oid of
        None \<Rightarrow> (coll, \<lparr>matched_count = 0, modified_count = 0\<rparr>)
      | Some d \<Rightarrow>
          (let d' = set_fields upd d
           in (AList.update oid d' coll,
               \<lparr>matched_count = 1, modified_count = (if d' = d then 0 else 1)\<rparr>)))"

text \<open>
  A query \<open>{k: v}\<close> matches a document whose field \<open>k\<close> equals \<open>v\<close>; \<open>null\<close> also
  matches a document without the field. The queried fields hold strings: matching an
  element of an array-valued field is left out.
\<close>

definition field_matches :: "doc \<Rightarrow> string \<Rightarrow> json \<Rightarrow> bool" where
  "field_matches d k v =
     (case map_of d k of
        None \<Rightarrow> v = JNull
      | Some w \<Rightarrow> w = v)"

definition find_one :: "collection \<Rightarrow> string \<Rightarrow> json \<Rightarrow> (string \<times> doc) option" where
  "find_one coll k v = find (\<lambda>(oid, d). field_matches d k v) coll"

definition count_documents :: "collection \<Rightarrow> string \<Rightarrow> json \<Rightarrow> nat" where
  "count_documents coll k v = length (filter (\<lambda>(oid, d). field_matches d k v) coll)"

text \<open>\<open>insert_one\<close>; \<open>new_id\<close> is the ObjectId the driver generates.\<close>

definition insert_one :: "collection \<Rightarrow> string \<Rightarrow> doc \<Rightarrow> collection" where
  "insert_one coll new_id d = coll @ [(new_id, d)]"

text \<open>
  The unique indexes that \<open>create_indexes.py\<close> and \<open>scripts/create_indexes.py\<close> put
  on the students and the teachers collection. A document without the field counts as
  holding \<open>null\<close>. An insert whose document repeats a stored key raises
  \<open>DuplicateKeyError\<close> (\<open>None\<close>). \<open>insert_many\<close> is ordered: it inserts document after
  document and stops at the first that repeats a key, the documents before it inserted
  (\<open>False\<close> for the \<open>BulkWriteError\<close> it then raises). An update raises when it changes
  a key to a value another document holds.
\<close>

definition students_unique :: "string list" where
  "students_unique = [''email'', ''student_id'']"

definition teachers_unique :: "string list" where
  "teachers_unique = [''email'', ''employee_id'']"

definition duplicate_key :: "string list \<Rightarrow> collection \<Rightarrow> doc \<Rightarrow> bool" where
  "duplicate_key keys coll d =
     list_ex (\<lambda>k. list_ex (\<lambda>p. dget (snd p) k JNull = dget d k JNull) coll) keys"

definition insert_unique :: "string list \<Rightarrow> collection \<Rightarrow> string \<Rightarrow> doc \<Rightarrow> collection option" where
  "insert_unique keys coll new_id d =
     (if duplicate_key keys coll d then None else Some (insert_one coll new_id d))"

fun insert_many :: "string list \<Rightarrow> collection \<Rightarrow> (string \<times> doc) list \<Rightarrow> collection \<times> bool" where
  "insert_many keys coll [] = (coll, True)"
| "insert_many keys coll (p # rest) =
     (case insert_unique keys coll (fst p) (snd p) of
        None \<Rightarrow> (coll, False)
      | Some coll' \<Rightarrow> insert_many keys coll' rest)"

definition update_one_unique ::
  "string list \<Rightarrow> collection \<Rightarrow> string \<Rightarrow> doc \<Rightarrow> (collection \<times> update_result) option" where
  "update_one_unique keys coll oid upd =
     (case map_of coll oid of
        None \<Rightarrow> Some (update_one coll oid upd)
      | Some d \<Rightarrow>
          (let d' = set_fields upd d
           in if duplicate_key (filter (\<lambda>k. dget d' k JNull \<noteq> dget d k JNull) keys)
                   (filter (\<lambda>p. fst p \<noteq> oid) coll) d'
              then None
              else Some (update_one coll oid upd)))"

record db =
  school_contacts :: collection
  teachers :: collection
  students :: collection
  email_logs :: collection

section \<open>Contact intake and approval: \<open>app/routes/school_contact.py\<close>\<close>

definition internal_error :: response where
  "internal_error = (500, JObj [(''success'', JBool False), (''error'', JStr ''Internal server error'')])"

text \<open>
  \<open>approve_contact\<close>. \<open>password\<close> is the output of \<open>random.choices\<close>. A body that is no
  JSON object makes \<open>data.get\<close> raise, an id that is no ObjectId makes the filter raise:
  both end in the handler's \<open>except\<close> branch.
\<close>

definition approve_update :: "clock \<Rightarrow> string \<Rightarrow> doc \<Rightarrow> doc" where
  "approve_update clk password body =
     [(''is_approved'', JBool True),
      (''is_active'', JBool True),
      (''accepted_plan'', dget body ''accepted_plan'' (JStr ''basic'')),
      (''admin_notes'', dget body ''admin_notes'' (JStr (''Approved on '' @ utcnow_text clk))),
      (''initial_password'', JStr password),
      (''approved_at'', JTime (utcnow clk)),
      (''updated_at'', JTime (utcnow clk))]"

definition approve_contact :: "db \<Rightarrow> clock \<Rightarrow> string \<Rightarrow> string \<Rightarrow> json \<Rightarrow> db \<times> response" where
  "approve_contact s clk password contact_id data =
     (case data of
        JObj body \<Rightarrow>
          (let update_data = approve_update clk password body
           in case ObjectId contact_id of
                None \<Rightarrow> (s, internal_error)
              | Some oid \<Rightarrow>
                  (let (coll, result) = update_one (school_contacts s) oid update_data;
                       s' = s\<lparr>school_contacts := coll\<rparr>
                   in if modified_count result = 0
                      then (s', (404, JObj [(''success'', JBool False),
                                            (''error'', JStr ''Contact not found or already approved'')]))
                      else (s', (200, JObj [(''success'', JBool True),
                                            (''message'', JStr ''Contact approved successfully''),
                                            (''data'', JObj [(''contact_id'', JStr contact_id),
                                                             (''password'', JStr password),
                                                             (''plan'', dget body ''accepted_plan'' (JStr ''basic''))])]))))
      | _ \<Rightarrow> (s, internal_error))"

definition failure :: "string \<Rightarrow> json" where
  "failure msg = JObj [(''success'', JBool False), (''error'', JStr msg)]"

definition success :: "string \<Rightarrow> json" where
  "success msg = JObj [(''success'', JBool True), (''message'', JStr msg)]"










text \<open>
  \<open>create_school_contact\<close>. \<open>new_id\<close> is the ObjectId \<open>insert_one\<close> generates. The
  \<open>except\<close> branch answers 500 with \<open>str(e)\<close>, written as the exception's class.
\<close>

definition required_fields :: "string list" where
  "required_fields = [''schoolName'', ''principalName'', ''email'', ''phone'', ''schoolType'']"

definition contact_doc :: "clock \<Rightarrow> doc \<Rightarrow> string \<Rightarrow> doc option" where
  "contact_doc clk body email =
     (case those [str_strip (dget body ''schoolName'' JNull),
                  str_strip (dget body ''principalName'' JNull),
                  str_strip (dget body ''phone'' JNull),
                  str_strip (dget body ''schoolType'' JNull),
                  str_strip (dget body ''studentCount'' (JStr [])),
                  str_strip (dget body ''address'' (JStr [])),
                  str_strip (dget body ''city'' (JStr [])),
                  str_strip (dget body ''state'' (JStr [])),
                  str_strip (dget body ''country'' (JStr [])),
                  str_strip (dget body ''website'' (JStr [])),
                  str_strip (dget body ''message'' (JStr []))] of
        Some [school_name, principal_name, phone, school_type, student_count, address,
              city, state, country, website, message] \<Rightarrow>
          Some [(''school_name'', JStr school_name),
                (''principal_name'', JStr principal_name),
                (''email'', JStr (strip (lower email))),
                (''phone'', JStr phone),
                (''school_type'', JStr school_type),
                (''student_count'', JStr student_count),
                (''address'', JStr address),
                (''city'', JStr city),
                (''state'', JStr state),
                (''country'', JStr country),
                (''website'', JStr website),
                (''message'', JStr message),
                (''preferred_contact'', dget body ''preferredContact'' (JStr ''email'')),
                (''timeline'', dget body ''timeline'' (JStr ''3_months'')),
                (''grades'', dget body ''grades'' (JList [])),
                (''interests'', dget body ''interests'' (JList [])),
                (''is_approved'', JBool False),
                (''is_active'', JBool False),
                (''priority_level'', JStr ''normal''),
                (''source'', JStr ''contact_form''),
                (''created_at'', JTime (utcnow clk)),
                (''updated_at'', JTime (utcnow clk))]
      | _ \<Rightarrow> None)"

definition create_school_contact :: "db \<Rightarrow> clock \<Rightarrow> string \<Rightarrow> json \<Rightarrow> db \<times> response" where
  "create_school_contact s clk new_id data =
     (if \<not> truthy data then (s, (400, failure ''No data provided''))
      else case data of
        JObj body \<Rightarrow>
          (let missing_fields =
                 filter (\<lambda>field. case map_of body field of
                                     None \<Rightarrow> True
                                   | Some v \<Rightarrow> strip (py_str v) = []) required_fields
           in if missing_fields \<noteq> []
              then (s, (400, JObj [(''success'', JBool False),
                                   (''error'', JStr (''Missing required fields: '' @ join '', '' missing_fields)),
                                   (''missing_fields'', JList (map JStr missing_fields))]))
              else case str_strip (dget body ''email'' JNull) of
                     None \<Rightarrow> (s, (500, failure ''Internal server error: AttributeError''))
                   | Some email \<Rightarrow>
                       if \<not> validate_email email
                       then (s, (400, failure ''Invalid email format''))
                       else if find_one (school_contacts s) ''email'' (JStr (lower email)) \<noteq> None
                       then (s, (400, failure ''Email already registered''))
                       else case contact_doc clk body email of
                              None \<Rightarrow> (s, (500, failure ''Internal server error: AttributeError''))
                            | Some d \<Rightarrow>
                                (s\<lparr>school_contacts := insert_one (school_contacts s) new_id d\<rparr>,
                                 (201, JObj [(''success'', JBool True),
                                             (''message'', JStr ''School contact submitted successfully''),
                                             (''data'', JObj [(''id'', JStr new_id),
                                                              (''school_name'', dget d ''school_name'' JNull),
                                                              (''email'', dget d ''email'' JNull)])])))
      | _ \<Rightarrow> (s, (500, failure ''Internal server error: AttributeError'')))"

text \<open>
  \<open>send_email\<close> of \<open>school_contact.py\<close>, the route \<open>/admin/send-email\<close>. The transport
  (connect, \<open>starttls\<close>, \<open>login\<close>, \<open>send_message\<close>) is the environment's: its outcome is a
  parameter. The configuration is what \<open>os.getenv\<close> returns; \<open>smtp_port\<close> is \<open>None\<close> when
  \<open>int\<close> raises on it. The three mail fields are used as strings.
\<close>

datatype smtp_outcome = Delivered | SMTPAuthenticationError | SMTPException | OtherError

record smtp_config =
  smtp_server :: string
  smtp_port :: "nat option"
  smtp_username :: "string option"
  smtp_password :: "string option"
  from_email :: "string option"

definition env_set :: "string option \<Rightarrow> bool" where
  "env_set v = (case v of None \<Rightarrow> False | Some t \<Rightarrow> t \<noteq> [])"

definition school_contact_send_email ::
  "db \<Rightarrow> clock \<Rightarrow> smtp_config \<Rightarrow> smtp_outcome \<Rightarrow> string \<Rightarrow> json \<Rightarrow> db \<times> response" where
  "school_contact_send_email s clk cfg transport new_id data =
     (case smtp_port cfg of
        None \<Rightarrow> (s, (500, failure ''Internal server error: ValueError''))
      | Some port \<Rightarrow>
          if \<not> (smtp_server cfg \<noteq> [] \<and> env_set (smtp_username cfg) \<and> env_set (smtp_password cfg)
                  \<and> env_set (from_email cfg))
          then (s, (500, failure ''Email server configuration is incomplete''))
          else case data of
            JObj body \<Rightarrow>
              (let to_email = dget body ''to_email'' JNull;
                   subject = dget body ''subject'' JNull;
                   message_body = dget body ''message'' JNull
               in if \<not> (truthy to_email \<and> truthy subject \<and> truthy message_body)
                  then (s, (400, failure ''Missing required email fields''))
                  else case (to_email, subject, message_body) of
                    (JStr t, JStr sub, JStr m) \<Rightarrow>
                      (case transport of
                         Delivered \<Rightarrow>
                           (s\<lparr>email_logs := insert_one (email_logs s) new_id
                                [(''to_email'', to_email),
                                 (''subject'', subject),
                                 (''message'', message_body),
                                 (''sent_at'', JTime (utcnow clk)),
                                 (''status'', JStr ''sent'')]\<rparr>,
                            (200, success ''Email sent successfully''))
                       | SMTPAuthenticationError \<Rightarrow>
                           (s, (500, failure ''Email server authentication failed. Check your credentials.''))
                       | SMTPException \<Rightarrow> (s, (500, failure ''Failed to send email: SMTPException''))
                       | OtherError \<Rightarrow> (s, (500, failure ''Failed to send email: Exception'')))
                  | _ \<Rightarrow> (s, (500, failure ''Internal server error: AttributeError'')))
          | _ \<Rightarrow> (s, (500, failure ''Internal server error: AttributeError'')))"

text \<open>
  \<open>send_institution_credentials\<close>. The function reads the names \<open>db\<close>,
  \<open>generate_secure_password\<close> and \<open>bcrypt\<close> and calls \<open>send_email\<close> with keyword arguments.
  \<open>school_contact_names\<close> are the names the module binds: its imports, constants and
  functions. A name outside them raises \<open>NameError\<close>; the module's \<open>send_email\<close> is the
  route handler above, which takes no argument, so the call raises \<open>TypeError\<close>.
  \<open>new_password\<close> stands for what \<open>generate_secure_password()\<close> would return.
\<close>

definition school_contact_names :: "string list" where
  "school_contact_names =
     [''Blueprint'', ''request'', ''jsonify'', ''make_response'', ''datetime'', ''re'', ''os'',
      ''MongoClient'', ''ObjectId'', ''smtplib'', ''MIMEText'', ''MIMEMultipart'', ''Header'',
      ''school_contact_bp'', ''MONGO_URI'', ''DATABASE_NAME'', ''get_mongo_client'', ''get_db'',
      ''close_mongo_client'', ''validate_email'', ''serialize_document'', ''add_cors_headers'',
      ''create_school_contact'', ''get_school_contacts'', ''get_pending_contacts'',
      ''approve_contact'', ''reject_contact'', ''review_contact'', ''activate_contact'',
      ''deactivate_contact'', ''send_email'', ''get_approved_institutions'',
      ''update_institution_status'', ''send_institution_credentials'']"

definition name_error :: "string \<Rightarrow> string" where
  "name_error n = ''name '' @ [CHR 0x27] @ n @ [CHR 0x27] @ '' is not defined''"

definition call_send_email_with_keywords :: "string + unit" where
  "call_send_email_with_keywords = Inl ''TypeError''"

definition send_institution_credentials :: "db \<Rightarrow> string \<Rightarrow> string \<Rightarrow> db \<times> response" where
  "send_institution_credentials s new_password institution_id =
     (if ''db'' \<notin> set school_contact_names then (s, (500, failure (name_error ''db'')))
      else case ObjectId institution_id of
        None \<Rightarrow> (s, (500, failure ''InvalidId''))
      | Some oid \<Rightarrow>
          (case map_of (school_contacts s) oid of
             None \<Rightarrow> (s, (404, failure ''Institution not found''))
           | Some institution \<Rightarrow>
               if ''generate_secure_password'' \<notin> set school_contact_names
               then (s, (500, failure (name_error ''generate_secure_password'')))
               else if ''bcrypt'' \<notin> set school_contact_names
               then (s, (500, failure (name_error ''bcrypt'')))
               else
                 (let (coll, result) = update_one (school_contacts s) oid
                                         [(''initial_password'', JStr new_password)];
                      s' = s\<lparr>school_contacts := coll\<rparr>
                  in if map_of institution ''school_name'' = None
                        \<or> map_of institution ''principal_name'' = None
                        \<or> map_of institution ''email'' = None
                     then (s', (500, failure ''KeyError''))
                     else case call_send_email_with_keywords of
                            Inl e \<Rightarrow> (s', (500, failure e))
                          | Inr _ \<Rightarrow>
                              (s', (200, JObj [(''success'', JBool True),
                                               (''message'', JStr ''Credentials sent successfully''),
                                               (''password'', JStr new_password)])))))"

section \<open>The notification service: \<open>email_service.py\<close>\<close>

text \<open>
  \<open>send_email_via_smtp\<close> returns whether the message went out: any exception inside it
  gives \<open>False\<close>. Building the MIME parts raises on a recipient or a text that is no
  string. \<open>mongo_connected\<close> is the module's flag; \<open>now\<close> is \<open>datetime.now()\<close>,
  \<open>remote_addr\<close> the caller's address, \<open>new_id\<close> the ObjectId of the log record.
\<close>

definition send_email_via_smtp :: "smtp_outcome \<Rightarrow> json \<Rightarrow> json \<Rightarrow> bool" where
  "send_email_via_smtp transport to_email message =
     (case (to_email, message) of
        (JStr t, JStr m) \<Rightarrow> transport = Delivered
      | _ \<Rightarrow> False)"

text \<open>\<open>field not in data\<close>: \<open>None\<close> is the \<open>TypeError\<close> of a body that is no container.\<close>

fun py_in :: "string \<Rightarrow> json \<Rightarrow> bool option" where
  "py_in k (JObj kvs) = Some (map_of kvs k \<noteq> None)"
| "py_in k (JList xs) = Some (JStr k \<in> set xs)"
| "py_in k (JStr t) = Some (contains k t)"
| "py_in k _ = None"

text \<open>
  The loop over \<open>required_fields\<close>: \<open>Inl None\<close> for the \<open>TypeError\<close>, \<open>Inl (Some f)\<close> for
  the first missing field, \<open>Inr ()\<close> when every field is there.
\<close>

fun check_required :: "string list \<Rightarrow> json \<Rightarrow> string option + unit" where
  "check_required [] data = Inr ()"
| "check_required (f # fs) data =
     (case py_in f data of
        None \<Rightarrow> Inl None
      | Some False \<Rightarrow> Inl (Some f)
      | Some True \<Rightarrow> check_required fs data)"

text \<open>
  \<open>data['message'][:200] + '...' if len(data['message']) > 200 else data['message']\<close>;
  \<open>None\<close> when \<open>len\<close>, the slice or the concatenation raises.
\<close>

fun content_preview :: "json \<Rightarrow> json option" where
  "content_preview (JStr m) = Some (JStr (if length m > 200 then take 200 m @ ''...'' else m))"
| "content_preview (JList xs) = (if length xs > 200 then None else Some (JList xs))"
| "content_preview (JObj kvs) = (if length kvs > 200 then None else Some (JObj kvs))"
| "content_preview _ = None"

definition email_service_send_email ::
  "db \<Rightarrow> nat \<Rightarrow> bool \<Rightarrow> smtp_outcome \<Rightarrow> string \<Rightarrow> string \<Rightarrow> json \<Rightarrow> db \<times> response" where
  "email_service_send_email s now mongo_connected transport remote_addr new_id data =
     (case check_required [''to_email'', ''subject'', ''message'', ''institution_name''] data of
        Inl None \<Rightarrow> (s, internal_error)
      | Inl (Some field) \<Rightarrow> (s, (400, failure (''Missing required field: '' @ field)))
      | Inr _ \<Rightarrow>
          (case data of
             JObj body \<Rightarrow>
               (case dget body ''subject'' JNull of
                  JStr subject \<Rightarrow>
                    (let email_type =
                           (if contains ''approval'' (lower subject) \<or> contains ''approved'' (lower subject)
                            then JStr ''approval''
                            else if contains ''rejection'' (lower subject)
                                    \<or> contains ''rejected'' (lower subject)
                                    \<or> contains ''not approved'' (lower subject)
                            then JStr ''rejection''
                            else dget body ''email_type'' (JStr ''general''));
                         sent = send_email_via_smtp transport (dget body ''to_email'' JNull)
                                  (dget body ''message'' JNull);
                         s' = (if mongo_connected
                               then case content_preview (dget body ''message'' JNull) of
                                      None \<Rightarrow> s
                                    | Some preview \<Rightarrow>
                                        s\<lparr>email_logs := insert_one (email_logs s) new_id
                                            [(''to_email'', dget body ''to_email'' JNull),
                                             (''subject'', JStr subject),
                                             (''institution_name'', dget body ''institution_name'' JNull),
                                             (''email_type'', email_type),
                                             (''status'', JStr (if sent then ''sent'' else ''failed'')),
                                             (''timestamp'', JTime now),
                                             (''ip_address'', JStr remote_addr),
                                             (''content_preview'', preview)]\<rparr>
                               else s)
                     in if sent
                        then case email_type of
                               JStr t \<Rightarrow>
                                 (s', (200, JObj [(''success'', JBool True),
                                                  (''message'', JStr (capitalize t @ '' email sent successfully'')),
                                                  (''email_type'', email_type)]))
                             | _ \<Rightarrow> (s', internal_error)
                        else (s', (500, failure ''Failed to send email'')))
                | _ \<Rightarrow> (s, internal_error))
           | _ \<Rightarrow> (s, internal_error)))"

text \<open>
  \<open>send_approval_email\<close> and \<open>send_rejection_email\<close>: the log is written under the guard
  \<open>if mongo_connected and success\<close>. The text of the mail is shortened to its first line.
\<close>

definition send_approval_email ::
  "db \<Rightarrow> nat \<Rightarrow> bool \<Rightarrow> smtp_outcome \<Rightarrow> string \<Rightarrow> string \<Rightarrow> json \<Rightarrow> db \<times> response" where
  "send_approval_email s now mongo_connected transport remote_addr new_id data =
     (case check_required [''to_email'', ''institution_name'', ''password'', ''plan''] data of
        Inl None \<Rightarrow> (s, internal_error)
      | Inl (Some field) \<Rightarrow> (s, (400, failure (''Missing required field: '' @ field)))
      | Inr _ \<Rightarrow>
          (case data of
             JObj body \<Rightarrow>
               (let message = JStr (''Dear '' @ py_str (dget body ''institution_name'' JNull) @ '' Administrator, ...'');
                    sent = send_email_via_smtp transport (dget body ''to_email'' JNull) message;
                    s' = (if mongo_connected \<and> sent
                          then s\<lparr>email_logs := insert_one (email_logs s) new_id
                                  [(''to_email'', dget body ''to_email'' JNull),
                                   (''subject'', JStr (''IntelliLearn Account Approved - ''
                                       @ py_str (dget body ''institution_name'' JNull))),
                                   (''institution_name'', dget body ''institution_name'' JNull),
                                   (''email_type'', JStr ''approval''),
                                   (''status'', JStr ''sent''),
                                   (''timestamp'', JTime now),
                                   (''ip_address'', JStr remote_addr)]\<rparr>
                          else s)
                in if sent
                   then (s', (200, success ''Approval email sent successfully''))
                   else (s', (500, failure ''Failed to send approval email'')))
           | _ \<Rightarrow> (s, internal_error)))"

definition send_rejection_email ::
  "db \<Rightarrow> nat \<Rightarrow> bool \<Rightarrow> smtp_outcome \<Rightarrow> string \<Rightarrow> string \<Rightarrow> json \<Rightarrow> db \<times> response" where
  "send_rejection_email s now mongo_connected transport remote_addr new_id data =
     (case check_required [''to_email'', ''institution_name''] data of
        Inl None \<Rightarrow> (s, internal_error)
      | Inl (Some field) \<Rightarrow> (s, (400, failure (''Missing required field: '' @ field)))
      | Inr _ \<Rightarrow>
          (case data of
             JObj body \<Rightarrow>
               (let rejection_reason = dget body ''rejection_reason''
                      (JStr ''Your application did not meet our current requirements. Please review our guidelines and reapply.'');
                    message = JStr (''Dear '' @ py_str (dget body ''institution_name'' JNull) @ '' Administrator, ...'');
                    sent = send_email_via_smtp transport (dget body ''to_email'' JNull) message;
                    s' = (if mongo_connected \<and> sent
                          then s\<lparr>email_logs := insert_one (email_logs s) new_id
                                  [(''to_email'', dget body ''to_email'' JNull),
                                   (''subject'', JStr (''IntelliLearn Application Rejected - ''
                                       @ py_str (dget body ''institution_name'' JNull))),
                                   (''institution_name'', dget body ''institution_name'' JNull),
                                   (''email_type'', JStr ''rejection''),
                                   (''rejection_reason'', rejection_reason),
                                   (''status'', JStr ''sent''),
                                   (''timestamp'', JTime now),
                                   (''ip_address'', JStr remote_addr)]\<rparr>
                          else s)
                in if sent
                   then (s', (200, success ''Rejection email sent successfully''))
                   else (s', (500, failure ''Failed to send rejection email'')))
           | _ \<Rightarrow> (s, internal_error)))"

section \<open>Students: \<open>app/routes/students.py\<close>\<close>

text \<open>
  A document as \<open>find\<close> returns it carries its \<open>_id\<close> in front.
  \<open>serialize_document\<close> turns the \<open>_id\<close> into a string.
\<close>

definition fetched :: "string \<times> doc \<Rightarrow> doc" where
  "fetched p = (''_id'', JOid (fst p)) # snd p"

definition serialize_document :: "doc \<Rightarrow> doc" where
  "serialize_document d =
     (case map_of d ''_id'' of
        None \<Rightarrow> d
      | Some v \<Rightarrow> AList.update ''_id'' (JStr (py_str v)) d)"

text \<open>
  \<open>get_all_students\<close>. \<open>page\<close> and \<open>limit\<close> are \<open>None\<close> when \<open>int\<close> raises on the query
  argument. \<open>regex\<close> is the database's case-insensitive \<open>$regex\<close> match of a pattern
  against a field's value. The cursor sorts before it skips and limits; a negative skip
  raises, limit 0 means no limit and a negative limit is its absolute value. The
  \<open>except\<close> branch answers 500 with \<open>str(e)\<close>, written here as \<open>exception\<close>.
\<close>

record student_args =
  page :: "int option"
  limit :: "int option"
  class_filter :: string
  section_filter :: string
  status_filter :: string
  search_term :: string

definition student_query :: "(string \<Rightarrow> json \<Rightarrow> bool) \<Rightarrow> student_args \<Rightarrow> doc \<Rightarrow> bool" where
  "student_query regex a d =
     ((class_filter a = [] \<or> field_matches d ''class'' (JStr (class_filter a)))
      \<and> (section_filter a = [] \<or> field_matches d ''section'' (JStr (section_filter a)))
      \<and> (status_filter a = [] \<or> field_matches d ''status'' (JStr (status_filter a)))
      \<and> (search_term a = []
           \<or> list_ex (\<lambda>k. case map_of d k of None \<Rightarrow> False | Some v \<Rightarrow> regex (search_term a) v)
                [''name'', ''roll_number'', ''email'', ''parent_name'']))"

definition created_at_key :: "string \<times> doc \<Rightarrow> int" where
  "created_at_key p = (case map_of (snd p) ''created_at'' of Some (JTime t) \<Rightarrow> - int (Suc t) | _ \<Rightarrow> 0)"

definition sort_newest_first :: "collection \<Rightarrow> collection" where
  "sort_newest_first coll = sort_key created_at_key coll"

definition apply_limit :: "int \<Rightarrow> 'a list \<Rightarrow> 'a list" where
  "apply_limit l xs = (if l = 0 then xs else take (nat \<bar>l\<bar>) xs)"

definition get_all_students :: "db \<Rightarrow> (string \<Rightarrow> json \<Rightarrow> bool) \<Rightarrow> student_args \<Rightarrow> response" where
  "get_all_students s regex a =
     (case page a of
        None \<Rightarrow> (500, failure ''Failed to fetch students: exception'')
      | Some pg \<Rightarrow>
          (case limit a of
             None \<Rightarrow> (500, failure ''Failed to fetch students: exception'')
           | Some lim \<Rightarrow>
               (let matching = filter (\<lambda>p. student_query regex a (snd p)) (students s);
                    total_students = int (length matching);
                    skip = (pg - 1) * lim
                in if skip < 0 then (500, failure ''Failed to fetch students: exception'')
                   else
                     (let found = apply_limit lim (drop (nat skip) (sort_newest_first matching));
                          out = map (\<lambda>p. JObj (serialize_document (fetched p))) found
                      in if lim = 0 then (500, failure ''Failed to fetch students: exception'')
                         else (200, JObj [(''success'', JBool True),
                                          (''data'', JList out),
                                          (''pagination'',
                                             JObj [(''page'', JNum pg),
                                                   (''limit'', JNum lim),
                                                   (''total'', JNum total_students),
                                                   (''pages'', JNum ((total_students + lim - 1) div lim))])])))))"

text \<open>
  The lookup of \<open>get_student\<close>, \<open>update_student\<close> and \<open>delete_student\<close>: by \<open>student_id\<close>
  first, then by \<open>_id\<close>. The outer \<open>None\<close> is the \<open>InvalidId\<close> of \<open>ObjectId(student_id)\<close>.
\<close>

definition resolve_student :: "collection \<Rightarrow> string \<Rightarrow> (string \<times> doc) option option" where
  "resolve_student coll student_id =
     (case find_one coll ''student_id'' (JStr student_id) of
        Some p \<Rightarrow> Some (Some p)
      | None \<Rightarrow>
          (case ObjectId student_id of
             None \<Rightarrow> None
           | Some oid \<Rightarrow> Some (map_option (Pair oid) (map_of coll oid))))"

definition get_student :: "db \<Rightarrow> string \<Rightarrow> response" where
  "get_student s student_id =
     (case resolve_student (students s) student_id of
        None \<Rightarrow> (500, failure ''Failed to fetch student: exception'')
      | Some None \<Rightarrow> (404, failure ''Student not found'')
      | Some (Some p) \<Rightarrow>
          (let student = AList.delete ''hashed_password'' (fetched p)
           in (200, JObj [(''success'', JBool True),
                          (''data'', JObj (serialize_document student))])))"

text \<open>
  \<open>field not in data or not str(data[field]).strip()\<close> over the required fields, and the
  copy of the allowed fields that are in the body; \<open>None\<close> where \<open>in\<close> or the
  subscript raises.
\<close>

fun missing_required :: "string list \<Rightarrow> json \<Rightarrow> string list option" where
  "missing_required [] data = Some []"
| "missing_required (f # fs) data =
     (case py_in f data of
        None \<Rightarrow> None
      | Some False \<Rightarrow> map_option ((#) f) (missing_required fs data)
      | Some True \<Rightarrow>
          (case data of
             JObj body \<Rightarrow>
               (if strip (py_str (dget body f JNull)) = []
                then map_option ((#) f) (missing_required fs data)
                else missing_required fs data)
           | _ \<Rightarrow> None))"

fun pick_fields :: "string list \<Rightarrow> json \<Rightarrow> doc option" where
  "pick_fields [] data = Some []"
| "pick_fields (f # fs) data =
     (case py_in f data of
        None \<Rightarrow> None
      | Some False \<Rightarrow> pick_fields fs data
      | Some True \<Rightarrow>
          (case data of
             JObj body \<Rightarrow> map_option ((#) (f, dget body f JNull)) (pick_fields fs data)
           | _ \<Rightarrow> None))"

text \<open>
  \<open>ObjectId(v)\<close> of a value: a string is parsed, \<open>None\<close> gives a fresh id, which matches
  no document (\<open>Some None\<close>); anything else raises (\<open>None\<close>).
\<close>

fun object_id_json :: "json \<Rightarrow> string option option" where
  "object_id_json (JStr t) = map_option Some (ObjectId t)"
| "object_id_json (JOid oid) = Some (Some oid)"
| "object_id_json JNull = Some None"
| "object_id_json _ = None"






text \<open>\<open>update_student\<close>.\<close>

definition update_fields :: "string list" where
  "update_fields =
     [''name'', ''phone'', ''class'', ''section'', ''date_of_birth'', ''gender'',
      ''address'', ''parent_name'', ''parent_phone'', ''parent_email'',
      ''parent_occupation'', ''blood_group'', ''medical_conditions'',
      ''attendance'', ''performance'', ''status'', ''profile_image'']"

definition update_student_error :: response where
  "update_student_error = (500, failure ''Failed to update student: exception'')"

definition update_student_write :: "db \<Rightarrow> clock \<Rightarrow> string \<Rightarrow> doc \<Rightarrow> db \<times> response" where
  "update_student_write s clk oid update_data =
     (let (coll, result) = update_one (students s) oid
                             (update_data @ [(''updated_at'', JTime (utcnow clk))]);
          s' = s\<lparr>students := coll\<rparr>
      in if modified_count result = 0
         then (s', (400, failure ''No changes made''))
         else (s', (200, success ''Student updated successfully'')))"

text \<open>
  The \<open>update_data\<close> of \<open>update_student\<close>: the allowed fields of the body, and the new
  email when the body has one that differs from the stored one and is not in use.
  \<open>Inl\<close> is the response of an early return or of the \<open>except\<close> branch.
\<close>

definition student_update_data :: "collection \<Rightarrow> doc \<Rightarrow> json \<Rightarrow> response + doc" where
  "student_update_data coll student data =
     (case pick_fields update_fields data of
        None \<Rightarrow> Inl update_student_error
      | Some update_data \<Rightarrow>
          (case py_in ''email'' data of
             None \<Rightarrow> Inl update_student_error
           | Some False \<Rightarrow> Inr update_data
           | Some True \<Rightarrow>
               (case data of
                  JObj body \<Rightarrow>
                    (case (str_strip (dget body ''email'' JNull), map_of student ''email'') of
                       (Some e, Some current) \<Rightarrow>
                         (let new_email = lower e
                          in if JStr new_email \<noteq> current
                             then if find_one coll ''email'' (JStr new_email) \<noteq> None
                                  then Inl (400, failure ''Email already in use'')
                                  else Inr (update_data @ [(''email'', JStr new_email)])
                             else Inr update_data)
                     | _ \<Rightarrow> Inl update_student_error)
                | _ \<Rightarrow> Inl update_student_error)))"

definition update_student :: "db \<Rightarrow> clock \<Rightarrow> string \<Rightarrow> json \<Rightarrow> db \<times> response" where
  "update_student s clk student_id data =
     (case resolve_student (students s) student_id of
        None \<Rightarrow> (s, update_student_error)
      | Some None \<Rightarrow> (s, (404, failure ''Student not found''))
      | Some (Some (oid, student)) \<Rightarrow>
          (case student_update_data (students s) student data of
             Inl r \<Rightarrow> (s, r)
           | Inr update_data \<Rightarrow> update_student_write s clk oid update_data))"

text \<open>
  \<open>bulk_import_students\<close>, from the parsed data frame on: its columns and its rows, a
  row holding one cell per column. \<open>gen_id\<close> and \<open>gen_password\<close> give the student id and
  the password generated for the row of an index, \<open>new_ids\<close> the ids \<open>insert_many\<close>
  assigns. A row's \<open>except\<close> records \<open>str(e)\<close>, written here as \<open>exception\<close>; so does
  the handler's own, which answers 500 when \<open>insert_many\<close> raises.
\<close>

record data_frame =
  columns :: "string list"
  rows :: "doc list"

definition row_label :: "nat \<Rightarrow> string" where
  "row_label index = ''Row '' @ str_nat (index + 2) @ '': ''"

definition cell_text :: "doc \<Rightarrow> string \<Rightarrow> string \<Rightarrow> json" where
  "cell_text row k dflt = JStr (strip (py_str (dget row k (JStr dflt))))"

definition student_row ::
  "python \<Rightarrow> clock \<Rightarrow> string \<Rightarrow> string \<Rightarrow> nat \<Rightarrow> doc \<Rightarrow> string + doc" where
  "student_row py clk student_id password index row =
     (case (map_of row ''Name'', map_of row ''Email'', map_of row ''Class'', map_of row ''Section'') of
        (Some n, Some e, Some c, Some sec) \<Rightarrow>
          (let name = strip (py_str n);
               email = lower (strip (py_str e));
               class_name = strip (py_str c);
               section = upper (strip (py_str sec))
           in if name = [] \<or> email = [] \<or> class_name = [] \<or> section = []
              then Inl (row_label index @ ''Missing required fields'')
              else if \<not> validate_email email
              then Inl (row_label index @ ''Invalid email format: '' @ email)
              else case (py_float py (dget row ''Attendance'' (JNum 0)),
                         py_float py (dget row ''Performance'' (JNum 0))) of
                     (Some attendance, Some performance) \<Rightarrow>
                       Inr [(''student_id'', JStr student_id),
                            (''name'', JStr name),
                            (''email'', JStr email),
                            (''phone'', cell_text row ''Phone'' []),
                            (''roll_number'', cell_text row ''Roll Number'' student_id),
                            (''class'', JStr class_name),
                            (''section'', JStr section),
                            (''date_of_birth'', cell_text row ''Date of Birth'' []),
                            (''gender'', JStr (lower (strip (py_str (dget row ''Gender'' (JStr [])))))),
                            (''address'', cell_text row ''Address'' []),
                            (''parent_name'', cell_text row ''Parent Name'' []),
                            (''parent_phone'', cell_text row ''Parent Phone'' []),
                            (''parent_email'', cell_text row ''Parent Email'' []),
                            (''parent_occupation'', cell_text row ''Parent Occupation'' []),
                            (''blood_group'', cell_text row ''Blood Group'' []),
                            (''medical_conditions'', cell_text row ''Medical Conditions'' []),
                            (''admission_date'', JStr (py_str (dget row ''Admission Date'' (JStr (utcnow_date clk))))),
                            (''attendance'', attendance),
                            (''performance'', performance),
                            (''status'', JStr (lower (strip (py_str (dget row ''Status'' (JStr ''active'')))))),
                            (''hashed_password'', JStr (bcrypt_hashpw py password)),
                            (''initial_password'', JStr password),
                            (''created_by'', JStr ''admin''),
                            (''created_at'', JTime (utcnow clk)),
                            (''updated_at'', JTime (utcnow clk))]
                   | _ \<Rightarrow> Inl (row_label index @ ''exception''))
      | _ \<Rightarrow> Inl (row_label index @ ''exception''))"

text \<open>The loop over the rows: the documents to insert and the row errors, in row order.\<close>

fun student_rows ::
  "python \<Rightarrow> clock \<Rightarrow> (nat \<Rightarrow> string) \<Rightarrow> (nat \<Rightarrow> string) \<Rightarrow> nat \<Rightarrow> doc list \<Rightarrow> doc list \<times> string list" where
  "student_rows py clk gen_id gen_password index [] = ([], [])"
| "student_rows py clk gen_id gen_password index (row # rest) =
     (let (docs, errors) = student_rows py clk gen_id gen_password (Suc index) rest
      in case student_row py clk (gen_id index) (gen_password index) index row of
           Inl e \<Rightarrow> (docs, e # errors)
         | Inr d \<Rightarrow> (d # docs, errors))"

definition doc_email :: "doc \<Rightarrow> json" where
  "doc_email d = dget d ''email'' JNull"

definition bulk_import_students ::
  "db \<Rightarrow> python \<Rightarrow> clock \<Rightarrow> (nat \<Rightarrow> string) \<Rightarrow> (nat \<Rightarrow> string) \<Rightarrow> (nat \<Rightarrow> string) \<Rightarrow> data_frame
     \<Rightarrow> db \<times> response" where
  "bulk_import_students s py clk gen_id gen_password new_ids df =
     (let missing_columns = filter (\<lambda>col. col \<notin> set (columns df)) [''Name'', ''Email'', ''Class'', ''Section'']
      in if missing_columns \<noteq> []
         then (s, (400, failure (''Missing required columns: '' @ join '', '' missing_columns)))
         else
           (let (students_to_insert, errors) = student_rows py clk gen_id gen_password 0 (rows df)
            in if errors \<noteq> [] \<and> students_to_insert = []
               then (s, (400, JObj [(''success'', JBool False),
                                    (''error'', JStr ''Failed to process file''),
                                    (''details'', JList (map JStr (take 10 errors)))]))
               else
                 (let emails = map doc_email students_to_insert;
                      existing_students = filter (\<lambda>p. list_ex (field_matches (snd p) ''email'') emails)
                                            (students s);
                      existing_emails = map (\<lambda>p. doc_email (snd p)) existing_students;
                      filtered_students = filter (\<lambda>d. doc_email d \<notin> set existing_emails) students_to_insert;
                      duplicate_emails = map doc_email
                                           (filter (\<lambda>d. doc_email d \<in> set existing_emails) students_to_insert);
                      (coll, inserted) = insert_many students_unique (students s)
                                           (zip (map new_ids [0 ..< length filtered_students]) filtered_students);
                      inserted_count = length filtered_students;
                      s' = s\<lparr>students := coll\<rparr>
                  in if \<not> inserted
                     then (s', (500, failure ''Failed to import students: exception''))
                     else
                     (s', (200, JObj ([(''success'', JBool True),
                                       (''message'', JStr (''Successfully imported '' @ str_nat inserted_count
                                                           @ '' students'')),
                                       (''data'', JObj [(''total_processed'', JNum (int (length (rows df)))),
                                                        (''successful'', JNum (int inserted_count)),
                                                        (''failed'', JNum (int (length (rows df)) - int inserted_count)),
                                                        (''duplicates'', JNum (int (length duplicate_emails))),
                                                        (''errors'', JList (map JStr (take 10 errors))),
                                                        (''duplicate_emails'', JList (take 10 duplicate_emails))])]
                                      @ (if errors \<noteq> []
                                         then [(''warning'', JStr (str_nat (length errors) @ '' rows had errors''))]
                                         else [])))))))"

section \<open>Teachers: \<open>app/routes/teachers.py\<close>\<close>

text \<open>
  The handlers behind \<open>token_required\<close> read the caller from the request: the
  \<open>user_id\<close>, \<open>user_role\<close> and \<open>school_id\<close> of the token's payload.
\<close>

record auth =
  user_id :: string
  user_role :: string
  school_id :: json

definition check_password :: "python \<Rightarrow> string \<Rightarrow> json \<Rightarrow> bool" where
  "check_password py password hashed =
     (case hashed of
        JStr h \<Rightarrow> (case bcrypt_checkpw py password h of Some b \<Rightarrow> b | None \<Rightarrow> False)
      | _ \<Rightarrow> False)"

definition generate_employee_id :: "clock \<Rightarrow> json \<Rightarrow> nat \<Rightarrow> string" where
  "generate_employee_id clk school_code count =
     py_str school_code @ ''T'' @ str_nat (year clk) @ zfill 4 (str_nat count)"

text \<open>\<open>[x.strip() for x in text.split(',') if x.strip()]\<close>.\<close>

definition split_list :: "string \<Rightarrow> json" where
  "split_list t = JList (map JStr (filter (\<lambda>w. w \<noteq> []) (map strip (split_on (CHR '','') t))))"

text \<open>
  The school of the caller. For a principal it is looked up by the token's
  \<open>school_id\<close>; for an admin by the \<open>school_id\<close> of the request, and without one the
  code is \<open>ADM\<close>. The result is the school found and the school code; \<open>None\<close> when
  \<open>ObjectId\<close> raises.
\<close>

definition school_of :: "db \<Rightarrow> auth \<Rightarrow> json \<Rightarrow> ((string \<times> doc) option \<times> json) option" where
  "school_of s a requested =
     (if user_role a = ''principal''
      then case object_id_json (school_id a) of
             None \<Rightarrow> None
           | Some None \<Rightarrow> Some (None, JNull)
           | Some (Some oid) \<Rightarrow>
               (case map_of (school_contacts s) oid of
                  None \<Rightarrow> Some (None, JNull)
                | Some school \<Rightarrow> Some (Some (oid, school), dget school ''school_code'' (JStr ''SCH'')))
      else if truthy requested
      then case object_id_json requested of
             None \<Rightarrow> None
           | Some None \<Rightarrow> Some (None, JNull)
           | Some (Some oid) \<Rightarrow>
               (case map_of (school_contacts s) oid of
                  None \<Rightarrow> Some (None, JNull)
                | Some school \<Rightarrow> Some (Some (oid, school), dget school ''school_code'' (JStr ''SCH'')))
      else Some (None, JStr ''ADM''))"

text \<open>\<open>{'$push': {k: v}}\<close>: a write error (\<open>None\<close>) on a field that holds no array.\<close>

definition push_field :: "doc \<Rightarrow> string \<Rightarrow> json \<Rightarrow> doc option" where
  "push_field d k v =
     (case map_of d k of
        None \<Rightarrow> Some (d @ [(k, JList [v])])
      | Some (JList xs) \<Rightarrow> Some (AList.update k (JList (xs @ [v])) d)
      | Some _ \<Rightarrow> None)"

text \<open>
  The side-effect write of \<open>register_teacher\<close> and \<open>bulk_import_teachers\<close>: the new
  teacher's id is pushed to the \<open>teachers\<close> list of the principal's school.
\<close>

definition push_teacher :: "db \<Rightarrow> auth \<Rightarrow> string \<Rightarrow> db option" where
  "push_teacher s a teacher_id =
     (case object_id_json (school_id a) of
        None \<Rightarrow> None
      | Some None \<Rightarrow> Some s
      | Some (Some oid) \<Rightarrow>
          (case map_of (school_contacts s) oid of
             None \<Rightarrow> Some s
           | Some d \<Rightarrow>
               (case push_field d ''teachers'' (JStr teacher_id) of
                  None \<Rightarrow> None
                | Some d' \<Rightarrow> Some (s\<lparr>school_contacts := AList.update oid d' (school_contacts s)\<rparr>))))"

text \<open>
  \<open>register_teacher\<close>. \<open>temp_password\<close> is the output of \<open>generate_temp_password\<close>,
  \<open>new_id\<close> the inserted \<open>_id\<close>.
\<close>

definition teacher_doc ::
  "python \<Rightarrow> clock \<Rightarrow> auth \<Rightarrow> (string \<times> doc) option \<Rightarrow> json \<Rightarrow> string \<Rightarrow> string \<Rightarrow> string
     \<Rightarrow> string \<Rightarrow> doc \<Rightarrow> doc option" where
  "teacher_doc py clk a school_info school_code employee_id email phone temp_password body =
     (case (str_strip (dget body ''name'' JNull), str_strip (dget body ''subject'' JNull),
            (if truthy (dget body ''date_of_birth'' JNull)
             then strptime py (dget body ''date_of_birth'' JNull) else Some JNull)) of
        (Some name, Some subject, Some date_of_birth) \<Rightarrow>
          Some [(''employee_id'', JStr employee_id),
                (''school_id'', (case school_info of Some (oid, school) \<Rightarrow> JStr oid | None \<Rightarrow> school_id a)),
                (''school_code'', school_code),
                (''school_name'', (case school_info of
                                     Some (oid, school) \<Rightarrow> dget school ''school_name'' (JStr [])
                                   | None \<Rightarrow> JStr [])),
                (''name'', JStr name),
                (''email'', JStr email),
                (''phone'', JStr phone),
                (''password'', JStr (bcrypt_hashpw py temp_password)),
                (''subject'', JStr subject),
                (''classes'', dget body ''classes'' (JList [])),
                (''status'', dget body ''status'' (JStr ''active'')),
                (''join_date'', JTime (utcnow clk)),
                (''qualifications'', dget body ''qualifications'' (JList [])),
                (''experience'', dget body ''experience'' (JNum 0)),
                (''address'', dget body ''address'' (JStr [])),
                (''date_of_birth'', date_of_birth),
                (''emergency_contact'', dget body ''emergency_contact'' (JStr [])),
                (''gender'', dget body ''gender'' (JStr [])),
                (''blood_group'', dget body ''blood_group'' (JStr [])),
                (''designation'', dget body ''designation'' (JStr ''Teacher'')),
                (''department'', dget body ''department'' (JStr [])),
                (''salary'', dget body ''salary'' JNull),
                (''role'', JStr ''teacher''),
                (''created_by'', JStr (user_id a)),
                (''created_at'', JTime (utcnow clk)),
                (''updated_at'', JTime (utcnow clk))]
      | _ \<Rightarrow> None)"

definition register_teacher_error :: response where
  "register_teacher_error = (500, failure ''Failed to register teacher: exception'')"

definition register_teacher ::
  "db \<Rightarrow> python \<Rightarrow> clock \<Rightarrow> auth \<Rightarrow> string \<Rightarrow> string \<Rightarrow> json \<Rightarrow> db \<times> response" where
  "register_teacher s py clk a temp_password new_id data =
     (if user_role a \<notin> set [''admin'', ''principal'']
      then (s, (403, failure ''Unauthorized access''))
      else case missing_required [''name'', ''email'', ''phone'', ''subject''] data of
        None \<Rightarrow> (s, register_teacher_error)
      | Some missing_fields \<Rightarrow>
          if missing_fields \<noteq> []
          then (s, (400, failure (''Missing required fields: '' @ join '', '' missing_fields)))
          else case data of
            JObj body \<Rightarrow>
              (case (str_strip (dget body ''email'' JNull), str_strip (dget body ''phone'' JNull)) of
                 (Some e, Some phone) \<Rightarrow>
                   (let email = lower e
                    in if \<not> validate_email email
                       then (s, (400, failure ''Invalid email format''))
                       else if \<not> validate_phone phone
                       then (s, (400, failure ''Invalid phone number format''))
                       else if find_one (teachers s) ''email'' (JStr email) \<noteq> None
                       then (s, (400, failure ''Email already registered''))
                       else case school_of s a (dget body ''school_id'' JNull) of
                              None \<Rightarrow> (s, register_teacher_error)
                            | Some (school_info, school_code) \<Rightarrow>
                                (let teacher_count = count_documents (teachers s) ''school_code'' school_code;
                                     employee_id = generate_employee_id clk school_code (teacher_count + 1)
                                 in case teacher_doc py clk a school_info school_code employee_id email phone
                                           temp_password body of
                                      None \<Rightarrow> (s, register_teacher_error)
                                    | Some d \<Rightarrow>
                                        (case insert_unique teachers_unique (teachers s) new_id d of
                                           None \<Rightarrow> (s, register_teacher_error)
                                         | Some coll \<Rightarrow>
                                         let s1 = s\<lparr>teachers := coll\<rparr>
                                         in case (if user_role a = ''principal'' \<and> school_info \<noteq> None
                                                  then push_teacher s1 a new_id else Some s1) of
                                              None \<Rightarrow> (s1, register_teacher_error)
                                            | Some s2 \<Rightarrow>
                                                (s2, (201, JObj [(''success'', JBool True),
                                                   (''message'', JStr ''Teacher registered successfully''),
                                                   (''data'', JObj [(''teacher_id'', JStr new_id),
                                                      (''employee_id'', JStr employee_id),
                                                      (''email'', JStr email),
                                                      (''temp_password'', JStr temp_password),
                                                      (''message'', JStr ''Please share these credentials with the teacher'')])])))))
               | _ \<Rightarrow> (s, register_teacher_error))
          | _ \<Rightarrow> (s, register_teacher_error))"

text \<open>
  \<open>teacher_login\<close>. \<open>token\<close> is the output of \<open>generate_token\<close>. The serialised
  document keeps a datetime as the instant it is.
\<close>

definition invalid_credentials :: response where
  "invalid_credentials = (401, failure ''Invalid credentials'')"

definition login_error :: response where
  "login_error = (500, failure ''Login failed: exception'')"

fun lower_strip :: "json \<Rightarrow> string option" where
  "lower_strip (JStr t) = Some (strip (lower t))"
| "lower_strip _ = None"

definition login_school_info :: "db \<Rightarrow> doc \<Rightarrow> json option" where
  "login_school_info s teacher =
     (if truthy (dget teacher ''school_id'' JNull)
      then case object_id_json (dget teacher ''school_id'' JNull) of
             None \<Rightarrow> None
           | Some None \<Rightarrow> Some (JObj [])
           | Some (Some oid) \<Rightarrow>
               (case map_of (school_contacts s) oid of
                  None \<Rightarrow> Some (JObj [])
                | Some school \<Rightarrow>
                    Some (JObj [(''school_id'', JStr oid),
                                (''school_name'', dget school ''school_name'' (JStr [])),
                                (''school_code'', dget school ''school_code'' (JStr []))]))
      else Some (JObj []))"

definition teacher_login :: "db \<Rightarrow> python \<Rightarrow> clock \<Rightarrow> string \<Rightarrow> json \<Rightarrow> db \<times> response" where
  "teacher_login s py clk token data =
     (case data of
        JObj body \<Rightarrow>
          (case (lower_strip (dget body ''email'' (JStr [])), str_strip (dget body ''password'' (JStr []))) of
             (Some email, Some password) \<Rightarrow>
               if email = [] \<or> password = []
               then (s, (400, failure ''Email and password are required''))
               else (case find_one (teachers s) ''email'' (JStr email) of
                  None \<Rightarrow> (s, invalid_credentials)
                | Some (oid, teacher) \<Rightarrow>
                    if \<not> check_password py password (dget teacher ''password'' (JStr []))
                    then (s, invalid_credentials)
                    else if dget teacher ''status'' JNull \<noteq> JStr ''active''
                    then (s, (403, failure ''Your account is not active''))
                    else
                      (let s' = s\<lparr>teachers := fst (update_one (teachers s) oid
                                                       [(''last_login'', JTime (utcnow clk))])\<rparr>
                       in case login_school_info s' teacher of
                            None \<Rightarrow> (s', login_error)
                          | Some school_info \<Rightarrow>
                              (s', (200, JObj [(''success'', JBool True),
                                 (''message'', JStr ''Login successful''),
                                 (''data'', JObj [(''token'', JStr token),
                                    (''teacher'', JObj [(''id'', JStr oid),
                                       (''employee_id'', dget teacher ''employee_id'' (JStr [])),
                                       (''name'', dget teacher ''name'' (JStr [])),
                                       (''email'', dget teacher ''email'' (JStr [])),
                                       (''subject'', dget teacher ''subject'' (JStr [])),
                                       (''role'', dget teacher ''role'' (JStr ''teacher'')),
                                       (''profile_image'', dget teacher ''profile_image'' (JStr [])),
                                       (''school'', school_info)])])]))))
           | _ \<Rightarrow> (s, login_error))
      | _ \<Rightarrow> (s, login_error))"

text \<open>\<open>update_teacher\<close>: the merge of the allowed fields, then the write.\<close>

definition self_fields :: "string list" where
  "self_fields = [''name'', ''phone'', ''address'', ''date_of_birth'', ''emergency_contact'', ''profile_image'']"

definition admin_fields :: "string list" where
  "admin_fields =
     [''name'', ''email'', ''phone'', ''subject'', ''classes'', ''status'', ''qualifications'',
      ''experience'', ''address'', ''date_of_birth'', ''emergency_contact'', ''gender'',
      ''blood_group'', ''designation'', ''department'', ''salary'', ''profile_image'']"

definition merged_value :: "python \<Rightarrow> string \<Rightarrow> json \<Rightarrow> json option" where
  "merged_value py field v =
     (if field = ''date_of_birth'' \<and> truthy v then strptime py v
      else if field = ''classes'' \<or> field = ''qualifications''
      then (case v of JStr t \<Rightarrow> Some (split_list t) | _ \<Rightarrow> Some v)
      else Some v)"

fun merge_fields :: "python \<Rightarrow> string list \<Rightarrow> json \<Rightarrow> doc option" where
  "merge_fields py [] data = Some []"
| "merge_fields py (f # fs) data =
     (case py_in f data of
        None \<Rightarrow> None
      | Some False \<Rightarrow> merge_fields py fs data
      | Some True \<Rightarrow>
          (case data of
             JObj body \<Rightarrow>
               (case merged_value py f (dget body f JNull) of
                  None \<Rightarrow> None
                | Some v \<Rightarrow> map_option ((#) (f, v)) (merge_fields py fs data))
           | _ \<Rightarrow> None))"

definition update_teacher_error :: response where
  "update_teacher_error = (500, failure ''Failed to update teacher: exception'')"

definition update_teacher ::
  "db \<Rightarrow> python \<Rightarrow> clock \<Rightarrow> auth \<Rightarrow> string \<Rightarrow> json \<Rightarrow> db \<times> response" where
  "update_teacher s py clk a teacher_id data =
     (if user_role a = ''teacher'' \<and> user_id a \<noteq> teacher_id
      then (s, (403, failure ''You can only update your own profile''))
      else case ObjectId teacher_id of
        None \<Rightarrow> (s, update_teacher_error)
      | Some oid \<Rightarrow>
          (case map_of (teachers s) oid of
             None \<Rightarrow> (s, (404, failure ''Teacher not found''))
           | Some teacher \<Rightarrow>
               if user_role a = ''principal'' \<and> dget teacher ''school_id'' JNull \<noteq> school_id a
               then (s, (403, failure ''Unauthorized access''))
               else case merge_fields py (if user_role a = ''teacher'' then self_fields else admin_fields) data of
                      None \<Rightarrow> (s, update_teacher_error)
                    | Some update_data \<Rightarrow>
                        (case update_one_unique teachers_unique (teachers s) oid
                                (update_data @ [(''updated_at'', JTime (utcnow clk))]) of
                           None \<Rightarrow> (s, update_teacher_error)
                         | Some (coll, result) \<Rightarrow>
                             (let s' = s\<lparr>teachers := coll\<rparr>
                              in if modified_count result = 0
                                 then (s', (200, success ''No changes made''))
                                 else (s', (200, success ''Teacher updated successfully''))))))"


text \<open>
  \<open>bulk_import_teachers\<close>, from the parsed data frame on. The loop threads the store,
  the running \<open>teacher_count\<close>, the two counters and the row errors. \<open>gen_password\<close> gives
  the temporary password generated for the row of an index, \<open>new_ids\<close> the \<open>_id\<close> its
  \<open>insert_one\<close> assigns. A row's \<open>except\<close> records \<open>str(row_error)\<close>, written here as
  \<open>exception\<close>.
\<close>

definition isna :: "json \<Rightarrow> bool" where
  "isna v = (v = JNaN \<or> v = JNull)"

record import_state =
  store :: db
  teacher_count :: nat
  success_count :: nat
  error_count :: nat
  errors :: "string list"

definition row_failed :: "import_state \<Rightarrow> string \<Rightarrow> import_state" where
  "row_failed st msg = st\<lparr>errors := errors st @ [msg], error_count := error_count st + 1\<rparr>"

text \<open>\<open>str(row.get(k, dflt)).strip() if pd.notna(row.get(k)) else dflt\<close>.\<close>

definition notna_text :: "doc \<Rightarrow> string \<Rightarrow> string \<Rightarrow> json" where
  "notna_text row k dflt =
     (case map_of row k of
        None \<Rightarrow> JStr dflt
      | Some v \<Rightarrow> if isna v then JStr dflt else JStr (strip (py_str v)))"

text \<open>\<open>f(row[k]) if k in row and pd.notna(row[k]) else dflt\<close>.\<close>

definition notna_value :: "doc \<Rightarrow> string \<Rightarrow> (json \<Rightarrow> json option) \<Rightarrow> json \<Rightarrow> json option" where
  "notna_value row k f dflt =
     (case map_of row k of
        None \<Rightarrow> Some dflt
      | Some v \<Rightarrow> if isna v then Some dflt else f v)"

text \<open>
  \<open>[x.strip() for x in str(row[k]).split(',') if x.strip()]\<close> when the row has the column
  and the cell holds a value, the empty list otherwise.
\<close>

definition notna_list :: "doc \<Rightarrow> string \<Rightarrow> json" where
  "notna_list row k =
     (case map_of row k of
        None \<Rightarrow> JList []
      | Some v \<Rightarrow> if isna v then JList [] else split_list (py_str v))"

definition import_teacher_doc ::
  "python \<Rightarrow> clock \<Rightarrow> auth \<Rightarrow> (string \<times> doc) option \<Rightarrow> json \<Rightarrow> string \<Rightarrow> string \<Rightarrow> string
     \<Rightarrow> doc \<Rightarrow> doc option" where
  "import_teacher_doc py clk a school_info school_code employee_id email temp_password row =
     (case (map_of row ''name'', map_of row ''phone'', map_of row ''subject'',
            notna_value row ''experience'' (py_int py) (JNum 0),
            notna_value row ''date_of_birth'' (strptime py) JNull,
            notna_value row ''salary'' (py_float py) JNull) of
        (Some name, Some phone, Some subject, Some experience, Some date_of_birth, Some salary) \<Rightarrow>
          Some [(''employee_id'', JStr employee_id),
                (''school_id'', (case school_info of
                                   Some (oid, school) \<Rightarrow> JStr oid
                                 | None \<Rightarrow> if user_role a = ''principal'' then school_id a else JNull)),
                (''school_code'', school_code),
                (''school_name'', (case school_info of
                                     Some (oid, school) \<Rightarrow> dget school ''school_name'' (JStr [])
                                   | None \<Rightarrow> JStr [])),
                (''name'', JStr (strip (py_str name))),
                (''email'', JStr email),
                (''phone'', JStr (strip (py_str phone))),
                (''password'', JStr (bcrypt_hashpw py temp_password)),
                (''subject'', JStr (strip (py_str subject))),
                (''classes'', notna_list row ''classes''),
                (''status'', cell_text row ''status'' ''active''),
                (''join_date'', JTime (utcnow clk)),
                (''qualifications'', notna_list row ''qualifications''),
                (''experience'', experience),
                (''address'', notna_text row ''address'' []),
                (''date_of_birth'', date_of_birth),
                (''emergency_contact'', notna_text row ''emergency_contact'' []),
                (''gender'', notna_text row ''gender'' []),
                (''blood_group'', notna_text row ''blood_group'' []),
                (''designation'', notna_text row ''designation'' ''Teacher''),
                (''department'', notna_text row ''department'' []),
                (''salary'', salary),
                (''role'', JStr ''teacher''),
                (''created_by'', JStr (user_id a)),
                (''created_at'', JTime (utcnow clk)),
                (''updated_at'', JTime (utcnow clk))]
      | _ \<Rightarrow> None)"

text \<open>One pass of the loop, for the row of an index.\<close>

definition teacher_row ::
  "python \<Rightarrow> clock \<Rightarrow> auth \<Rightarrow> (string \<times> doc) option \<Rightarrow> json \<Rightarrow> string \<Rightarrow> string \<Rightarrow> nat \<Rightarrow> doc
     \<Rightarrow> import_state \<Rightarrow> import_state" where
  "teacher_row py clk a school_info school_code temp_password new_id index row st =
     (case map_of row ''name'' of
        None \<Rightarrow> row_failed st (row_label index @ ''exception'')
      | Some n \<Rightarrow>
          if isna n then st
          else case map_of row ''email'' of
            None \<Rightarrow> row_failed st (row_label index @ ''exception'')
          | Some e \<Rightarrow>
              if isna e then st
              else
                (let email = lower (strip (py_str e))
                 in if find_one (teachers (store st)) ''email'' (JStr email) \<noteq> None
                    then row_failed st (row_label index @ ''Email '' @ email @ '' already exists'')
                    else
                      (let st1 = st\<lparr>teacher_count := teacher_count st + 1\<rparr>;
                           employee_id = generate_employee_id clk school_code (teacher_count st1)
                       in case import_teacher_doc py clk a school_info school_code employee_id email
                                 temp_password row of
                            None \<Rightarrow> row_failed st1 (row_label index @ ''exception'')
                          | Some d \<Rightarrow>
                              (case insert_unique teachers_unique (teachers (store st1)) new_id d of
                                 None \<Rightarrow> row_failed st1 (row_label index @ ''exception'')
                               | Some coll \<Rightarrow>
                                   (let s1 = (store st1)\<lparr>teachers := coll\<rparr>
                                    in case (if user_role a = ''principal'' \<and> school_info \<noteq> None
                                             then push_teacher s1 a new_id else Some s1) of
                                         None \<Rightarrow> row_failed (st1\<lparr>store := s1\<rparr>)
                                                   (row_label index @ ''exception'')
                                       | Some s2 \<Rightarrow>
                                           st1\<lparr>store := s2, success_count := success_count st1 + 1\<rparr>)))))"

fun teacher_rows ::
  "python \<Rightarrow> clock \<Rightarrow> auth \<Rightarrow> (string \<times> doc) option \<Rightarrow> json \<Rightarrow> (nat \<Rightarrow> string) \<Rightarrow> (nat \<Rightarrow> string)
     \<Rightarrow> nat \<Rightarrow> doc list \<Rightarrow> import_state \<Rightarrow> import_state" where
  "teacher_rows py clk a school_info school_code gen_password new_ids index [] st = st"
| "teacher_rows py clk a school_info school_code gen_password new_ids index (row # rest) st =
     teacher_rows py clk a school_info school_code gen_password new_ids (Suc index) rest
       (teacher_row py clk a school_info school_code (gen_password index) (new_ids index) index row st)"

definition bulk_import_teachers ::
  "db \<Rightarrow> python \<Rightarrow> clock \<Rightarrow> auth \<Rightarrow> json \<Rightarrow> (nat \<Rightarrow> string) \<Rightarrow> (nat \<Rightarrow> string) \<Rightarrow> data_frame
     \<Rightarrow> db \<times> response" where
  "bulk_import_teachers s py clk a requested gen_password new_ids df =
     (if user_role a \<notin> set [''admin'', ''principal'']
      then (s, (403, failure ''Unauthorized access''))
      else
        (let missing_columns = filter (\<lambda>col. col \<notin> set (columns df)) [''name'', ''email'', ''phone'', ''subject'']
         in if missing_columns \<noteq> []
            then (s, (400, failure (''Missing required columns: '' @ join '', '' missing_columns)))
            else case school_of s a requested of
                   None \<Rightarrow> (s, (500, failure ''Failed to import teachers: exception''))
                 | Some (school_info, school_code) \<Rightarrow>
                     (let st = teacher_rows py clk a school_info school_code gen_password new_ids 0 (rows df)
                                 \<lparr>store = s,
                                  teacher_count = count_documents (teachers s) ''school_code'' school_code,
                                  success_count = 0, error_count = 0, errors = []\<rparr>
                      in (store st,
                          (200, JObj [(''success'', JBool True),
                                      (''message'', JStr (''Bulk import completed. Success: ''
                                                          @ str_nat (success_count st) @ '', Failed: ''
                                                          @ str_nat (error_count st))),
                                      (''data'', JObj [(''success_count'', JNum (int (success_count st))),
                                                       (''error_count'', JNum (int (error_count st))),
                                                       (''errors'', JList (map JStr (take 10 (errors st))))])])))))"

text \<open>The page of students the cursor of \<open>get_all_students\<close> returns.\<close>

definition student_page :: "db \<Rightarrow> (string \<Rightarrow> json \<Rightarrow> bool) \<Rightarrow> student_args \<Rightarrow> int \<Rightarrow> int \<Rightarrow> collection" where
  "student_page s regex a pg lim =
     apply_limit lim (drop (nat ((pg - 1) * lim))
       (sort_newest_first (filter (\<lambda>p. student_query regex a (snd p)) (students s))))"




section \<open>Concrete inputs\<close>

definition ex_oid :: string where
  "ex_oid = ''5f1d7f3e9b1e8a0012345678''"

definition ex_clock :: clock where
  "ex_clock = \<lparr>utcnow = 9, utcnow_text = ''2024-01-01 00:00:09'',
     utcnow_date = ''2024-01-01'', year = 2024\<rparr>"

definition ex_contact :: doc where
  "ex_contact =
     [(''school_name'', JStr ''Hill School''),
      (''principal_name'', JStr ''Ann''),
      (''email'', JStr ''a@b.com''),
      (''is_approved'', JBool False),
      (''is_active'', JBool False),
      (''updated_at'', JTime 5)]"

definition ex_db :: db where
  "ex_db = \<lparr>school_contacts = [(ex_oid, ex_contact)], teachers = [], students = [], email_logs = []\<rparr>"

definition ex_oid2 :: string where
  "ex_oid2 = ''5f1d7f3e9b1e8a0012345679''"

definition ex_submission :: doc where
  "ex_submission =
     [(''schoolName'', JStr ''Lake School''), (''principalName'', JStr ''Bob''),
      (''email'', JStr '' C@D.org ''), (''phone'', JStr ''555''), (''schoolType'', JStr ''public'')]"

definition ex_resubmission :: doc where
  "ex_resubmission =
     [(''schoolName'', JStr ''Lake School 2''), (''principalName'', JStr ''Bea''),
      (''email'', JStr ''c@d.ORG''), (''phone'', JStr ''556''), (''schoolType'', JStr ''private'')]"

definition ex_mail :: doc where
  "ex_mail =
     [(''to_email'', JStr ''a@b.com''), (''subject'', JStr ''Welcome''),
      (''message'', JStr ''Hello''), (''institution_name'', JStr ''Hill School''),
      (''password'', JStr ''aB3!aB3!aB3!''), (''plan'', JStr ''basic'')]"

definition ex_smtp_config :: smtp_config where
  "ex_smtp_config = \<lparr>smtp_server = ''smtp.gmail.com'', smtp_port = Some 587,
     smtp_username = Some ''admin'', smtp_password = Some ''secret'',
     from_email = Some ''admin@intellilearn.com''\<rparr>"

definition ex_student :: doc where
  "ex_student =
     [(''student_id'', JStr ''STU20240101ABCDEF''), (''name'', JStr ''Cy''),
      (''email'', JStr ''cy@school.edu''), (''class'', JStr ''10''), (''section'', JStr ''A''),
      (''hashed_password'', JStr ''$2b$12$hash''), (''initial_password'', JStr ''1a2b3c4d''),
      (''created_at'', JTime 3), (''updated_at'', JTime 3)]"

definition ex_school_db :: db where
  "ex_school_db = \<lparr>school_contacts = [(ex_oid, ex_contact)], teachers = [],
     students = [(ex_oid2, ex_student)], email_logs = []\<rparr>"

definition ex_args :: student_args where
  "ex_args = \<lparr>page = Some 1, limit = Some 10, class_filter = [], section_filter = [],
     status_filter = [], search_term = []\<rparr>"

definition ex_python :: python where
  "ex_python = \<lparr>py_float = (\<lambda>v. case v of JNum n \<Rightarrow> Some (JNum n) | JNaN \<Rightarrow> Some JNaN | _ \<Rightarrow> None),
     py_int = (\<lambda>v. case v of JNum n \<Rightarrow> Some (JNum n) | _ \<Rightarrow> None),
     strptime = (\<lambda>v. None),
     bcrypt_hashpw = (\<lambda>p. ''$2b$12$'' @ p),
     bcrypt_checkpw = (\<lambda>p h. Some (h = ''$2b$12$'' @ p))\<rparr>"


definition ex_gen_id :: "nat \<Rightarrow> string" where
  "ex_gen_id i = ''STU20240101AAAAA'' @ str_nat i"

definition ex_gen_password :: "nat \<Rightarrow> string" where
  "ex_gen_password i = ''0a1b2c3'' @ str_nat i"

definition ex_new_ids :: "nat \<Rightarrow> string" where
  "ex_new_ids i = ''6a1d7f3e9b1e8a001234567'' @ str_nat i"

definition ex_teacher :: doc where
  "ex_teacher =
     [(''employee_id'', JStr ''ADMT20240001''), (''school_id'', JNull), (''school_code'', JStr ''ADM''),
      (''name'', JStr ''Eve''), (''email'', JStr ''eve@school.edu''), (''phone'', JStr ''+15550100''),
      (''password'', JStr ''$2b$12$right-password''), (''subject'', JStr ''Physics''),
      (''status'', JStr ''active''), (''role'', JStr ''teacher''),
      (''created_at'', JTime 4), (''updated_at'', JTime 5)]"

definition ex_oid3 :: string where
  "ex_oid3 = ''5f1d7f3e9b1e8a001234567a''"

definition ex_teacher_db :: db where
  "ex_teacher_db = \<lparr>school_contacts = [(ex_oid, ex_contact)], teachers = [(ex_oid3, ex_teacher)],
     students = [(ex_oid2, ex_student)], email_logs = []\<rparr>"

definition ex_login :: doc where
  "ex_login = [(''email'', JStr ''Eve@School.edu''), (''password'', JStr ''guess'')]"

definition ex_admin :: auth where
  "ex_admin = \<lparr>user_id = ''admin-1'', user_role = ''admin'', school_id = JNull\<rparr>"




definition ex_teacher_frame :: data_frame where
  "ex_teacher_frame = \<lparr>columns = [''name'', ''email'', ''phone'', ''subject''],
     rows = [[(''name'', JStr ''Hal''), (''email'', JStr ''not-an-email''), (''phone'', JStr ''555''),
              (''subject'', JStr ''Art'')],
             [(''name'', JNaN), (''email'', JNaN), (''phone'', JNaN), (''subject'', JNaN)],
             [(''name'', JStr ''Eve 2''), (''email'', JStr ''EVE@school.edu''), (''phone'', JStr ''556''),
              (''subject'', JStr ''Math'')]]\<rparr>"

definition ex_invalid_teacher :: json where
  "ex_invalid_teacher = JObj [(''name'', JStr ''Hal''), (''email'', JStr ''not-an-email''),
     (''phone'', JStr ''555''), (''subject'', JStr ''Art'')]"

definition ex_invalid_frame :: data_frame where
  "ex_invalid_frame = \<lparr>columns = [''Name'', ''Email'', ''Class'', ''Section''],
     rows = [[(''Name'', JStr ''Hal''), (''Email'', JStr ''not-an-email''), (''Class'', JNum 9),
              (''Section'', JStr ''b'')]]\<rparr>"

section \<open>Properties\<close>

lemma map_of_set_fields: "map_of (set_fields upd d) = map_of d ++ map_of (rev upd)"
  unfolding set_fields_def
proof (induction upd arbitrary: d)
  case Nil
  show ?case by simp
next
  case (Cons p upd)
  obtain k v where p: "p = (k, v)" by (cases p)
  show ?case
    by (simp add: p Cons.IH update_conv' map_add_upd_left) (auto simp: map_add_def fun_eq_iff split: option.splits)
qed

lemma update_one_lookup:
  "map_of coll oid = Some d \<Longrightarrow>
   map_of (fst (update_one coll oid upd)) oid = Some (set_fields upd d)"
  by (simp add: update_one_def Let_def update_conv')

lemma update_one_missing:
  "map_of coll oid = None \<Longrightarrow>
   update_one coll oid upd = (coll, \<lparr>matched_count = 0, modified_count = 0\<rparr>)"
  by (simp add: update_one_def)

lemma ObjectId_ex_oid: "ObjectId ex_oid = Some ex_oid"
  by (simp add: ObjectId_def ex_oid_def is_hex_def hex_lower_def)

subsection \<open>Approval\<close>

text \<open>
  C1. For a contact id that resolves to a stored contact request, \<open>approve_contact\<close>
  writes the generated password, both flags true and the \<open>approved_at\<close> stamp to the
  record, and when the write modified the record the response is 200 and carries the
  generated password. Whenever the update modifies zero records (\<open>modified_count = 0\<close>),
  the response is 404.
\<close>

theorem approve_contact_spec:
  assumes run: "approve_contact s clk password contact_id (JObj body) = (s', r)"
      and oid: "ObjectId contact_id = Some oid"
  shows "(\<forall>d. map_of (school_contacts s) oid = Some d \<longrightarrow>
            (\<exists>d'. map_of (school_contacts s') oid = Some d'
                 \<and> map_of d' ''is_approved'' = Some (JBool True)
                 \<and> map_of d' ''is_active'' = Some (JBool True)
                 \<and> map_of d' ''initial_password'' = Some (JStr password)
                 \<and> map_of d' ''approved_at'' = Some (JTime (utcnow clk)))
            \<and> (set_fields (approve_update clk password body) d \<noteq> d \<longrightarrow>
                 r = (200, JObj [(''success'', JBool True),
                                 (''message'', JStr ''Contact approved successfully''),
                                 (''data'', JObj [(''contact_id'', JStr contact_id),
                                                  (''password'', JStr password),
                                                  (''plan'', dget body ''accepted_plan'' (JStr ''basic''))])])))
       \<and> (modified_count (snd (update_one (school_contacts s) oid (approve_update clk password body))) = 0 \<longrightarrow>
            r = (404, JObj [(''success'', JBool False),
                            (''error'', JStr ''Contact not found or already approved'')]))"
proof -
  let ?upd = "approve_update clk password body"
  obtain coll res where u: "update_one (school_contacts s) oid ?upd = (coll, res)"
    by (cases "update_one (school_contacts s) oid ?upd")
  have s': "s' = s\<lparr>school_contacts := coll\<rparr>"
    using run oid u by (simp add: approve_contact_def Let_def split: if_splits)
  have r404: "modified_count res = 0 \<Longrightarrow>
      r = (404, JObj [(''success'', JBool False),
                      (''error'', JStr ''Contact not found or already approved'')])"
    using run oid u by (simp add: approve_contact_def Let_def)
  have r200: "modified_count res \<noteq> 0 \<Longrightarrow>
      r = (200, JObj [(''success'', JBool True),
                      (''message'', JStr ''Contact approved successfully''),
                      (''data'', JObj [(''contact_id'', JStr contact_id),
                                       (''password'', JStr password),
                                       (''plan'', dget body ''accepted_plan'' (JStr ''basic''))])])"
    using run oid u by (simp add: approve_contact_def Let_def)
  have stored: "map_of coll oid = Some (set_fields ?upd d)"
    and cnt: "modified_count res = (if set_fields ?upd d = d then 0 else 1)"
    if "map_of (school_contacts s) oid = Some d" for d
    using that u by (auto simp: update_one_def Let_def update_conv')
  have fields:
    "map_of (set_fields ?upd d) ''is_approved'' = Some (JBool True)"
    "map_of (set_fields ?upd d) ''is_active'' = Some (JBool True)"
    "map_of (set_fields ?upd d) ''initial_password'' = Some (JStr password)"
    "map_of (set_fields ?upd d) ''approved_at'' = Some (JTime (utcnow clk))" for d
    by (simp_all add: map_of_set_fields approve_update_def map_add_def)
  show ?thesis
    using s' r404 r200 stored cnt fields u by auto
qed

theorem approve_contact_spec_witness:
  "ObjectId ex_oid = Some ex_oid
   \<and> map_of (school_contacts ex_db) ex_oid = Some ex_contact
   \<and> set_fields (approve_update ex_clock ''aB3!aB3!aB3!'' []) ex_contact \<noteq> ex_contact
   \<and> snd (approve_contact ex_db ex_clock ''aB3!aB3!aB3!'' ex_oid (JObj [])) =
       (200, JObj [(''success'', JBool True),
                   (''message'', JStr ''Contact approved successfully''),
                   (''data'', JObj [(''contact_id'', JStr ex_oid),
                                    (''password'', JStr ''aB3!aB3!aB3!''),
                                    (''plan'', JStr ''basic'')])])
   \<and> snd (approve_contact ex_db ex_clock ''aB3!aB3!aB3!'' ''5f1d7f3e9b1e8a0012345679'' (JObj [])) =
       (404, JObj [(''success'', JBool False),
                   (''error'', JStr ''Contact not found or already approved'')])"
proof -
  have changed: "set_fields (approve_update ex_clock ''aB3!aB3!aB3!'' []) ex_contact \<noteq> ex_contact"
    by (simp add: set_fields_def approve_update_def ex_contact_def ex_clock_def dget_def)
  have found: "map_of (school_contacts ex_db) ex_oid = Some ex_contact"
    by (simp add: ex_db_def)
  have oid2: "ObjectId ''5f1d7f3e9b1e8a0012345679'' = Some ''5f1d7f3e9b1e8a0012345679''"
    by (simp add: ObjectId_def is_hex_def hex_lower_def)
  have missing: "modified_count (snd (update_one (school_contacts ex_db) ''5f1d7f3e9b1e8a0012345679''
                   (approve_update ex_clock ''aB3!aB3!aB3!'' []))) = 0"
    by (simp add: update_one_def ex_db_def ex_oid_def)
  show ?thesis
    using approve_contact_spec [OF surjective_pairing ObjectId_ex_oid, of ex_db ex_clock "''aB3!aB3!aB3!''" "[]"]
          approve_contact_spec [OF surjective_pairing oid2, of ex_db ex_clock "''aB3!aB3!aB3!''" "[]"]
          changed found missing ObjectId_ex_oid
    by (simp add: dget_def)
qed


subsection \<open>Submission\<close>

lemma of_char_lower_char:
  "(of_char (lower_char c) :: nat) = (if is_upper c then of_char c + 32 else of_char c)"
  by (auto simp add: lower_char_def is_upper_def Let_def)

lemma char_eq_code: "(c = d) = ((of_char c :: nat) = of_char d)"
  by simp

lemma lower_char_at [simp]: "(lower_char c = CHR ''@'') = (c = CHR ''@'')"
  by (auto simp add: char_eq_code [of _ "CHR ''@''"] of_char_lower_char is_upper_def Let_def)

lemma lower_char_dot [simp]: "(lower_char c = CHR ''.'') = (c = CHR ''.'')"
  by (auto simp add: char_eq_code [of _ "CHR ''.''"] of_char_lower_char is_upper_def Let_def)

lemma lower_char_nl [simp]: "(lower_char c = CHR 0x0A) = (c = CHR 0x0A)"
  by (auto simp add: char_eq_code [of _ "CHR 0x0A"] of_char_lower_char is_upper_def Let_def)

lemma is_space_lower_char [simp]: "is_space (lower_char c) = is_space c"
  by (auto simp add: is_space_def of_char_lower_char is_upper_def Let_def)

lemma is_alpha_lower_char [simp]: "is_alpha (lower_char c) = is_alpha c"
  by (auto simp add: is_alpha_def is_lower_def of_char_lower_char is_upper_def Let_def)

lemma is_digit_lower_char [simp]: "is_digit (lower_char c) = is_digit c"
  by (auto simp add: is_digit_def of_char_lower_char is_upper_def Let_def)

lemma is_local_char_lower_char [simp]: "is_local_char (lower_char c) = is_local_char c"
  by (auto simp add: is_local_char_def char_eq_code [of "lower_char c"] char_eq_code [of c] of_char_lower_char is_upper_def is_alpha_def is_lower_def Let_def)

lemma is_domain_char_lower_char [simp]: "is_domain_char (lower_char c) = is_domain_char c"
  by (auto simp add: is_domain_char_def char_eq_code [of "lower_char c"] char_eq_code [of c] of_char_lower_char is_upper_def is_alpha_def is_lower_def Let_def)


lemma email_core_lower: "email_core (lower e) = email_core e"
proof -
  have tw: "takeWhile (\<lambda>c. c \<noteq> k) (map lower_char xs) = map lower_char (takeWhile (\<lambda>c. c \<noteq> k) xs)"
    and dw: "dropWhile (\<lambda>c. c \<noteq> k) (map lower_char xs) = map lower_char (dropWhile (\<lambda>c. c \<noteq> k) xs)"
    if "\<And>c. (lower_char c = k) = (c = k)" for k xs
    using that by (induction xs) auto
  have all_map [simp]:
    "list_all is_local_char (map lower_char xs) = list_all is_local_char xs"
    "list_all is_domain_char (map lower_char xs) = list_all is_domain_char xs"
    "list_all is_alpha (map lower_char xs) = list_all is_alpha xs" for xs
    by (simp_all add: list_all_iff)
  show ?thesis
  proof (cases "dropWhile (\<lambda>c. c \<noteq> CHR ''@'') e")
    case Nil
    show ?thesis
      by (simp add: email_core_def lower_def dw [of "CHR ''@''"] Nil del: dropWhile_eq_Nil_conv)
  next
    case (Cons x host)
    note e = this
    show ?thesis
    proof (cases "dropWhile (\<lambda>c. c \<noteq> CHR ''.'') (rev host)")
      case Nil
      show ?thesis
        by (simp add: email_core_def lower_def dw [of "CHR ''@''"] dw [of "CHR ''.''"] e Nil rev_map
              del: dropWhile_eq_Nil_conv)
    next
      case (Cons y dpart)
      show ?thesis
        by (simp add: email_core_def lower_def dw [of "CHR ''@''"] tw [of "CHR ''@''"]
              dw [of "CHR ''.''"] tw [of "CHR ''.''"] e Cons rev_map Let_def)
    qed
  qed
qed

lemma validate_email_lower: "validate_email (lower e) = validate_email e"
proof (cases "e = []")
  case True
  then show ?thesis by (simp add: lower_def)
next
  case False
  have "butlast (lower e) = lower (butlast e)"
    by (simp add: lower_def map_butlast)
  moreover have "last (lower e) = lower_char (last e)"
    using False by (simp add: lower_def last_map)
  moreover have "(lower e = []) = (e = [])"
    by (simp add: lower_def)
  ultimately show ?thesis
    by (simp add: validate_email_def email_core_lower)
qed

lemma dropWhile_triv: "xs = [] \<or> \<not> P (hd xs) \<Longrightarrow> dropWhile P xs = xs"
  by (cases xs) auto

lemma dropWhile_hd: "dropWhile P xs = [] \<or> \<not> P (hd (dropWhile P xs))"
  by (metis hd_dropWhile)

lemma strip_ends:
  "strip s = [] \<or> (\<not> is_space (hd (strip s)) \<and> \<not> is_space (last (strip s)))"
proof (cases "strip s = []")
  case True
  then show ?thesis by simp
next
  case False
  let ?t = "dropWhile is_space s"
  let ?u = "dropWhile is_space (rev ?t)"
  have u: "?u \<noteq> []" using False by (simp add: strip_def)
  then have hu: "\<not> is_space (hd ?u)" by (metis hd_dropWhile)
  have t: "?t \<noteq> []" using u by (cases "?t = []") simp_all
  then have ht: "\<not> is_space (hd ?t)" by (metis hd_dropWhile)
  have "rev ?t = takeWhile is_space (rev ?t) @ ?u" by simp
  then have "?t = rev ?u @ rev (takeWhile is_space (rev ?t))"
    by (metis rev_append rev_rev_ident)
  then have "hd ?t = hd (rev ?u)" using u by (metis hd_append2 rev_is_Nil_conv)
  then have "\<not> is_space (hd (strip s))" using ht by (simp add: strip_def)
  moreover have "last (strip s) = hd ?u" using u by (simp add: strip_def last_rev)
  ultimately show ?thesis using hu by simp
qed

lemma strip_fixed:
  "s = [] \<or> (\<not> is_space (hd s) \<and> \<not> is_space (last s)) \<Longrightarrow> strip s = s"
proof (cases "s = []")
  case True
  then show ?thesis by (simp add: strip_def)
next
  case False
  assume "s = [] \<or> (\<not> is_space (hd s) \<and> \<not> is_space (last s))"
  with False have h: "\<not> is_space (hd s)" and l: "\<not> is_space (last s)" by auto
  have 1: "dropWhile is_space s = s" using h False by (cases s) auto
  have "hd (rev s) = last s" using False by (simp add: hd_rev)
  then have 2: "dropWhile is_space (rev s) = rev s" using l False by (intro dropWhile_triv) simp
  show ?thesis by (simp add: strip_def 1 2)
qed

lemma strip_lower: "strip (lower s) = lower (strip s)"
proof -
  have sp: "is_space \<circ> lower_char = is_space" by (simp add: fun_eq_iff)
  show ?thesis
    by (simp add: strip_def lower_def dropWhile_map rev_map sp)
qed

lemma strip_idem: "strip (strip s) = strip s"
  using strip_ends [of s] by (rule strip_fixed)


lemma find_one_append:
  "field_matches d k v \<Longrightarrow> find_one (coll @ [(oid, d)]) k v \<noteq> None"
  by (auto simp: find_one_def find_None_iff)

lemma contact_doc_email:
  "contact_doc clk body email = Some d \<Longrightarrow> map_of d ''email'' = Some (JStr (strip (lower email)))"
  unfolding contact_doc_def
  by (simp split: option.splits list.splits) auto

lemma create_school_contact_created:
  assumes "create_school_contact s clk new_id (JObj body) = (s', (201, out))"
  shows "\<exists>email d. str_strip (dget body ''email'' JNull) = Some email \<and> validate_email email
           \<and> contact_doc clk body email = Some d
           \<and> s' = s\<lparr>school_contacts := insert_one (school_contacts s) new_id d\<rparr>"
  using assms unfolding create_school_contact_def Let_def
  by (auto split: if_splits option.splits simp: failure_def)

text \<open>
  C7. After a submission has been persisted, a second submission whose email equals
  the first one's up to ASCII case (and surrounding blanks) answers 400 and leaves the
  store as it was; when it carries the required fields, the error is the duplicate-email
  one, \<open>Email already registered\<close>.
\<close>

theorem duplicate_email_rejected:
  assumes first: "create_school_contact s clk1 id1 (JObj b1) = (s1, (201, out1))"
      and raw1: "map_of b1 ''email'' = Some (JStr raw1)"
      and raw2: "map_of b2 ''email'' = Some (JStr raw2)"
      and same: "lower (strip raw2) = lower (strip raw1)"
  shows "fst (create_school_contact s1 clk2 id2 (JObj b2)) = s1
       \<and> fst (snd (create_school_contact s1 clk2 id2 (JObj b2))) = 400
       \<and> ((\<forall>f \<in> set required_fields. \<exists>v. map_of b2 f = Some v \<and> strip (py_str v) \<noteq> []) \<longrightarrow>
            snd (create_school_contact s1 clk2 id2 (JObj b2)) = (400, failure ''Email already registered''))"
proof -
  from create_school_contact_created [OF first] raw1
  obtain d where v1: "validate_email (strip raw1)"
    and d: "contact_doc clk1 b1 (strip raw1) = Some d"
    and s1: "s1 = s\<lparr>school_contacts := insert_one (school_contacts s) id1 d\<rparr>"
    by (auto simp: dget_def)
  have "map_of d ''email'' = Some (JStr (lower (strip raw1)))"
    using contact_doc_email [OF d] by (simp add: strip_lower strip_idem)
  then have "field_matches d ''email'' (JStr (lower (strip raw2)))"
    by (simp add: field_matches_def same)
  then have found: "find_one (school_contacts s1) ''email'' (JStr (lower (strip raw2))) \<noteq> None"
    by (simp add: s1 insert_one_def find_one_append)
  have "validate_email (lower (strip raw2))"
    using v1 by (simp add: same validate_email_lower)
  then have v2: "validate_email (strip raw2)"
    by (simp add: validate_email_lower)
  have ne: "b2 \<noteq> []" using raw2 by auto
  let ?missing = "filter (\<lambda>field. case map_of b2 field of None \<Rightarrow> True
                                   | Some v \<Rightarrow> strip (py_str v) = []) required_fields"
  have run: "create_school_contact s1 clk2 id2 (JObj b2) =
     (if ?missing \<noteq> []
      then (s1, (400, JObj [(''success'', JBool False),
                            (''error'', JStr (''Missing required fields: '' @ join '', '' ?missing)),
                            (''missing_fields'', JList (map JStr ?missing))]))
      else (s1, (400, failure ''Email already registered'')))"
    using found v2 raw2 ne by (simp add: create_school_contact_def Let_def dget_def)
  have complete: "?missing = []"
    if "\<forall>f \<in> set required_fields. \<exists>v. map_of b2 f = Some v \<and> strip (py_str v) \<noteq> []"
    using that by (auto simp: filter_empty_conv)
  show ?thesis
    using complete by (auto simp: run simp del: set_filter)
qed

lemma ex_submission_created:
  "fst (snd (create_school_contact ex_db ex_clock ex_oid2 (JObj ex_submission))) = 201"
  by code_simp

theorem duplicate_email_rejected_witness:
  "fst (snd (create_school_contact ex_db ex_clock ex_oid2 (JObj ex_submission))) = 201
   \<and> lower (strip ''c@d.ORG'') = lower (strip '' C@D.org '')
   \<and> create_school_contact (fst (create_school_contact ex_db ex_clock ex_oid2 (JObj ex_submission)))
        ex_clock ex_oid (JObj ex_resubmission) =
       (fst (create_school_contact ex_db ex_clock ex_oid2 (JObj ex_submission)),
        (400, failure ''Email already registered''))"
proof -
  obtain s1 out1
    where first: "create_school_contact ex_db ex_clock ex_oid2 (JObj ex_submission) = (s1, (201, out1))"
    using ex_submission_created
    by (cases "create_school_contact ex_db ex_clock ex_oid2 (JObj ex_submission)") auto
  have raw1: "map_of ex_submission ''email'' = Some (JStr '' C@D.org '')"
    by (simp add: ex_submission_def)
  have raw2: "map_of ex_resubmission ''email'' = Some (JStr ''c@d.ORG'')"
    by (simp add: ex_resubmission_def)
  have same: "lower (strip ''c@d.ORG'') = lower (strip '' C@D.org '')"
    by code_simp
  have complete:
    "\<forall>f \<in> set required_fields. \<exists>v. map_of ex_resubmission f = Some v \<and> strip (py_str v) \<noteq> []"
    by (simp add: required_fields_def ex_resubmission_def strip_def is_space_def)
  show ?thesis
    using duplicate_email_rejected [OF first raw1 raw2 same, of ex_clock ex_oid] complete first same
    by (cases "create_school_contact s1 ex_clock ex_oid (JObj ex_resubmission)") auto
qed


subsection \<open>Credential dispatch\<close>

text \<open>
  C6. \<open>send_institution_credentials\<close> answers 500 with the \<open>NameError\<close> of \<open>db\<close> for every
  id, resolving or not, and leaves the store untouched: it neither answers 404 for an
  unknown institution nor regenerates, persists and mails a password for a known one.
\<close>

theorem send_institution_credentials_fails:
  "send_institution_credentials s new_password institution_id =
     (s, (500, JObj [(''success'', JBool False),
                     (''error'', JStr (''name '' @ [CHR 0x27] @ ''db'' @ [CHR 0x27] @ '' is not defined''))]))"
  by (simp add: send_institution_credentials_def school_contact_names_def failure_def name_error_def)


subsection \<open>Email logging\<close>

lemma check_required_present:
  "\<forall>f \<in> set fs. map_of body f \<noteq> None \<Longrightarrow> check_required fs (JObj body) = Inr ()"
  by (induction fs) auto


lemma email_service_send_email_logged:
  assumes "map_of body ''to_email'' = Some (JStr t)"
      and "map_of body ''subject'' = Some (JStr sub)"
      and "map_of body ''message'' = Some (JStr m)"
      and "map_of body ''institution_name'' = Some inst"
  shows "\<exists>log. email_logs (fst (email_service_send_email s now True transport addr new_id (JObj body)))
                 = email_logs s @ [(new_id, log)]
              \<and> map_of log ''status'' = Some (JStr (if transport = Delivered then ''sent'' else ''failed''))"
proof -
  have "check_required [''to_email'', ''subject'', ''message'', ''institution_name''] (JObj body) = Inr ()"
    using assms by (intro check_required_present) auto
  then show ?thesis
    using assms
    by (auto simp: email_service_send_email_def Let_def dget_def send_email_via_smtp_def insert_one_def
             split: json.splits)
qed

lemma send_approval_email_logged:
  assumes "map_of body ''to_email'' = Some (JStr t)"
      and "map_of body ''institution_name'' = Some inst"
      and "map_of body ''password'' = Some pw"
      and "map_of body ''plan'' = Some plan"
  shows "email_logs (fst (send_approval_email s now True transport addr new_id (JObj body))) =
           (if transport = Delivered
            then email_logs s @ [(new_id,
                   [(''to_email'', JStr t),
                    (''subject'', JStr (''IntelliLearn Account Approved - '' @ py_str inst)),
                    (''institution_name'', inst),
                    (''email_type'', JStr ''approval''),
                    (''status'', JStr ''sent''),
                    (''timestamp'', JTime now),
                    (''ip_address'', JStr addr)])]
            else email_logs s)"
proof -
  have "check_required [''to_email'', ''institution_name'', ''password'', ''plan''] (JObj body) = Inr ()"
    using assms by (intro check_required_present) auto
  then show ?thesis
    using assms
    by (auto simp: send_approval_email_def Let_def dget_def send_email_via_smtp_def insert_one_def)
qed

lemma send_rejection_email_logged:
  assumes "map_of body ''to_email'' = Some (JStr t)"
      and "map_of body ''institution_name'' = Some inst"
  shows "email_logs (fst (send_rejection_email s now True transport addr new_id (JObj body))) =
           (if transport = Delivered
            then email_logs s @ [(new_id,
                   [(''to_email'', JStr t),
                    (''subject'', JStr (''IntelliLearn Application Rejected - '' @ py_str inst)),
                    (''institution_name'', inst),
                    (''email_type'', JStr ''rejection''),
                    (''rejection_reason'', dget body ''rejection_reason''
                       (JStr ''Your application did not meet our current requirements. Please review our guidelines and reapply.'')),
                    (''status'', JStr ''sent''),
                    (''timestamp'', JTime now),
                    (''ip_address'', JStr addr)])]
            else email_logs s)"
proof -
  have "check_required [''to_email'', ''institution_name''] (JObj body) = Inr ()"
    using assms by (intro check_required_present) auto
  then show ?thesis
    using assms
    by (auto simp: send_rejection_email_def Let_def dget_def send_email_via_smtp_def insert_one_def)
qed

lemma school_contact_send_email_logged:
  assumes "map_of body ''to_email'' = Some (JStr t)" and "t \<noteq> []"
      and "map_of body ''subject'' = Some (JStr sub)" and "sub \<noteq> []"
      and "map_of body ''message'' = Some (JStr m)" and "m \<noteq> []"
      and "smtp_port cfg \<noteq> None" and "smtp_server cfg \<noteq> []" and "env_set (smtp_username cfg)"
      and "env_set (smtp_password cfg)" and "env_set (from_email cfg)"
  shows "email_logs (fst (school_contact_send_email s clk cfg transport new_id (JObj body))) =
           (if transport = Delivered
            then email_logs s @ [(new_id,
                   [(''to_email'', JStr t), (''subject'', JStr sub), (''message'', JStr m),
                    (''sent_at'', JTime (utcnow clk)), (''status'', JStr ''sent'')])]
            else email_logs s)"
  using assms
  by (cases transport) (auto simp: school_contact_send_email_def Let_def dget_def insert_one_def)


text \<open>
  C5, as stated, fails: an approval mail whose transport raises answers 500 and appends
  nothing to \<open>email_logs\<close>.
\<close>

theorem failed_send_not_logged:
  "fst (snd (send_approval_email ex_db 9 True SMTPException ''10.0.0.1'' ex_oid2 (JObj ex_mail))) = 500
   \<and> email_logs (fst (send_approval_email ex_db 9 True SMTPException ''10.0.0.1'' ex_oid2 (JObj ex_mail)))
       = email_logs ex_db"
  by (simp add: send_approval_email_def ex_mail_def send_email_via_smtp_def dget_def failure_def)

text \<open>
  C5, amended. With the log store connected and a well-formed request, the generic
  endpoint of the email service appends exactly one record per attempt, with status
  \<open>sent\<close> or \<open>failed\<close> after the transport's outcome. The approval and rejection
  endpoints and the admin route \<open>/admin/send-email\<close> append exactly one record, with
  status \<open>sent\<close>, when the transport delivered, and none when it failed.
\<close>

theorem email_log_per_endpoint:
  assumes to: "map_of body ''to_email'' = Some (JStr t)" "t \<noteq> []"
      and sub: "map_of body ''subject'' = Some (JStr sub)" "sub \<noteq> []"
      and msg: "map_of body ''message'' = Some (JStr m)" "m \<noteq> []"
      and inst: "map_of body ''institution_name'' = Some inst"
      and pw: "map_of body ''password'' = Some pw"
      and plan: "map_of body ''plan'' = Some plan"
      and cfg: "smtp_port cfg \<noteq> None" "smtp_server cfg \<noteq> []" "env_set (smtp_username cfg)"
               "env_set (smtp_password cfg)" "env_set (from_email cfg)"
  shows "(\<exists>log. email_logs (fst (email_service_send_email s now True transport addr new_id (JObj body)))
                  = email_logs s @ [(new_id, log)]
               \<and> map_of log ''status'' = Some (JStr (if transport = Delivered then ''sent'' else ''failed'')))
       \<and> (transport = Delivered \<longrightarrow>
            (\<exists>log. email_logs (fst (send_approval_email s now True transport addr new_id (JObj body)))
                     = email_logs s @ [(new_id, log)] \<and> map_of log ''status'' = Some (JStr ''sent''))
          \<and> (\<exists>log. email_logs (fst (send_rejection_email s now True transport addr new_id (JObj body)))
                     = email_logs s @ [(new_id, log)] \<and> map_of log ''status'' = Some (JStr ''sent''))
          \<and> (\<exists>log. email_logs (fst (school_contact_send_email s clk cfg transport new_id (JObj body)))
                     = email_logs s @ [(new_id, log)] \<and> map_of log ''status'' = Some (JStr ''sent'')))
       \<and> (transport \<noteq> Delivered \<longrightarrow>
            email_logs (fst (send_approval_email s now True transport addr new_id (JObj body))) = email_logs s
          \<and> email_logs (fst (send_rejection_email s now True transport addr new_id (JObj body))) = email_logs s
          \<and> email_logs (fst (school_contact_send_email s clk cfg transport new_id (JObj body))) = email_logs s)"
proof -
  note a = send_approval_email_logged [OF to(1) inst pw plan, of s now transport addr new_id]
  note r = send_rejection_email_logged [OF to(1) inst, of s now transport addr new_id]
  note c = school_contact_send_email_logged [OF to sub msg cfg, of s clk transport new_id]
  note g = email_service_send_email_logged [OF to(1) sub(1) msg(1) inst, of s now transport addr new_id]
  show ?thesis
  proof (cases "transport = Delivered")
    case True
    show ?thesis using g a r c True by auto
  next
    case False
    show ?thesis using g a r c False by auto
  qed
qed

theorem email_log_per_endpoint_witness:
  "map_of (snd (last (email_logs (fst (email_service_send_email ex_db 9 True SMTPException
        ''10.0.0.1'' ex_oid2 (JObj ex_mail)))))) ''status'' = Some (JStr ''failed'')
   \<and> length (email_logs (fst (email_service_send_email ex_db 9 True SMTPException
        ''10.0.0.1'' ex_oid2 (JObj ex_mail)))) = 1
   \<and> email_logs (fst (send_rejection_email ex_db 9 True SMTPException ''10.0.0.1'' ex_oid2 (JObj ex_mail))) = []
   \<and> email_logs (fst (school_contact_send_email ex_db ex_clock ex_smtp_config SMTPException ex_oid2 (JObj ex_mail))) = []
   \<and> length (email_logs (fst (send_approval_email ex_db 9 True Delivered ''10.0.0.1'' ex_oid2 (JObj ex_mail)))) = 1"
proof -
  have cfg: "smtp_port ex_smtp_config \<noteq> None" "smtp_server ex_smtp_config \<noteq> []"
    "env_set (smtp_username ex_smtp_config)" "env_set (smtp_password ex_smtp_config)"
    "env_set (from_email ex_smtp_config)"
    by (simp_all add: ex_smtp_config_def env_set_def)
  have f: "map_of ex_mail ''to_email'' = Some (JStr ''a@b.com'')" "''a@b.com'' \<noteq> []"
    "map_of ex_mail ''subject'' = Some (JStr ''Welcome'')" "''Welcome'' \<noteq> []"
    "map_of ex_mail ''message'' = Some (JStr ''Hello'')" "''Hello'' \<noteq> []"
    "map_of ex_mail ''institution_name'' = Some (JStr ''Hill School'')"
    "map_of ex_mail ''password'' = Some (JStr ''aB3!aB3!aB3!'')"
    "map_of ex_mail ''plan'' = Some (JStr ''basic'')"
    by (simp_all add: ex_mail_def)
  have logs: "email_logs ex_db = []" by (simp add: ex_db_def)
  show ?thesis
    using email_log_per_endpoint [OF f cfg, of ex_db 9 SMTPException "''10.0.0.1''" ex_oid2 ex_clock]
          email_log_per_endpoint [OF f cfg, of ex_db 9 Delivered "''10.0.0.1''" ex_oid2 ex_clock]
    by (auto simp: logs)
qed


subsection \<open>Teacher login\<close>

text \<open>
  C9. A login request with an email and a password (neither blank) whose password does
  not verify answers 401 \<open>Invalid credentials\<close>, writes nothing, and answers the same
  against a store where the email is a teacher's and against one where it is nobody's.
\<close>

theorem login_wrong_password_indistinguishable:
  assumes email: "map_of body ''email'' = Some (JStr raw_email)" "strip (lower raw_email) \<noteq> []"
      and password: "map_of body ''password'' = Some (JStr raw_password)" "strip raw_password \<noteq> []"
      and known: "find_one (teachers s1) ''email'' (JStr (strip (lower raw_email))) = Some (oid, teacher)"
      and wrong: "\<not> check_password py (strip raw_password) (dget teacher ''password'' (JStr []))"
      and unknown: "find_one (teachers s2) ''email'' (JStr (strip (lower raw_email))) = None"
  shows "teacher_login s1 py clk token (JObj body)
           = (s1, (401, JObj [(''success'', JBool False), (''error'', JStr ''Invalid credentials'')]))
       \<and> teacher_login s2 py clk token (JObj body)
           = (s2, (401, JObj [(''success'', JBool False), (''error'', JStr ''Invalid credentials'')]))
       \<and> snd (teacher_login s1 py clk token (JObj body)) = snd (teacher_login s2 py clk token (JObj body))"
  using assms
  by (simp add: teacher_login_def dget_def invalid_credentials_def failure_def)

theorem login_wrong_password_indistinguishable_witness:
  "find_one (teachers ex_teacher_db) ''email'' (JStr (strip (lower ''Eve@School.edu''))) = Some (ex_oid3, ex_teacher)
   \<and> \<not> check_password ex_python (strip ''guess'') (dget ex_teacher ''password'' (JStr []))
   \<and> find_one (teachers ex_db) ''email'' (JStr (strip (lower ''Eve@School.edu''))) = None
   \<and> teacher_login ex_teacher_db ex_python ex_clock ''token'' (JObj ex_login)
       = (ex_teacher_db, (401, JObj [(''success'', JBool False), (''error'', JStr ''Invalid credentials'')]))
   \<and> teacher_login ex_db ex_python ex_clock ''token'' (JObj ex_login)
       = (ex_db, (401, JObj [(''success'', JBool False), (''error'', JStr ''Invalid credentials'')]))"
proof -
  have email: "map_of ex_login ''email'' = Some (JStr ''Eve@School.edu'')"
    "strip (lower ''Eve@School.edu'') \<noteq> []"
    by (simp add: ex_login_def, code_simp)
  have password: "map_of ex_login ''password'' = Some (JStr ''guess'')" "strip ''guess'' \<noteq> []"
    by (simp add: ex_login_def, code_simp)
  have known: "find_one (teachers ex_teacher_db) ''email'' (JStr (strip (lower ''Eve@School.edu'')))
                 = Some (ex_oid3, ex_teacher)"
    by code_simp
  have wrong: "\<not> check_password ex_python (strip ''guess'') (dget ex_teacher ''password'' (JStr []))"
    by code_simp
  have unknown: "find_one (teachers ex_db) ''email'' (JStr (strip (lower ''Eve@School.edu''))) = None"
    by code_simp
  show ?thesis
    using login_wrong_password_indistinguishable [OF email password known wrong unknown, of ex_clock "''token''"]
          known wrong unknown
    by simp
qed




subsection \<open>Student responses\<close>

lemma serialize_fetched: "serialize_document (fetched p) = (''_id'', JStr (fst p)) # snd p"
  by (simp add: serialize_document_def fetched_def)

lemma set_apply_limit: "set (apply_limit l xs) \<subseteq> set xs"
  by (auto simp: apply_limit_def dest: in_set_takeD)

lemma student_page_stored: "set (student_page s regex a pg lim) \<subseteq> set (students s)"
  using set_apply_limit [of lim] set_drop_subset [of "nat ((pg - 1) * lim)"]
  by (fastforce simp: student_page_def sort_newest_first_def)

lemma student_page_complete:
  assumes "int (length (filter (\<lambda>p. student_query regex a (snd p)) (students s))) \<le> lim" and "lim \<noteq> 0"
  shows "set (student_page s regex a 1 lim) = {p \<in> set (students s). student_query regex a (snd p)}"
  using assms by (auto simp: student_page_def apply_limit_def sort_newest_first_def)

lemma find_in_set: "find P xs = Some x \<Longrightarrow> x \<in> set xs"
  by (induction xs) (auto split: if_splits)

lemma find_holds: "find P xs = Some x \<Longrightarrow> P x"
  by (induction xs) (auto split: if_splits)

lemma resolve_student_asked:
  assumes "resolve_student coll sid = Some (Some p)"
  shows "p \<in> set coll \<and> (map_of (snd p) ''student_id'' = Some (JStr sid) \<or> ObjectId sid = Some (fst p))"
  using assms
  by (auto simp: resolve_student_def find_one_def field_matches_def
           split: option.splits dest: map_of_SomeD find_in_set find_holds)

text \<open>
  C10. With a page and a limit the cursor accepts, the list-students response is 200 and
  its \<open>data\<close> is the page of matching students, each a stored student whole: its \<open>_id\<close>
  as a string in front of every stored field, \<open>hashed_password\<close> and \<open>initial_password\<close>
  among them; on page 1 with a limit no smaller than the number of matching students, the
  page holds every matching student. The get-student response for an id that resolves
  (by \<open>student_id\<close> first, then by \<open>_id\<close>) is 200 and its \<open>data\<close> is that student without
  \<open>hashed_password\<close> and with every other stored field, \<open>initial_password\<close> among them.
\<close>

theorem student_responses_credentials:
  "(page a = Some pg \<and> limit a = Some lim \<and> 0 \<le> (pg - 1) * lim \<and> lim \<noteq> 0 \<longrightarrow>
      get_all_students s regex a =
        (200, JObj [(''success'', JBool True),
                    (''data'', JList (map (\<lambda>p. JObj ((''_id'', JStr (fst p)) # snd p))
                                         (student_page s regex a pg lim))),
                    (''pagination'',
                       JObj [(''page'', JNum pg), (''limit'', JNum lim),
                             (''total'', JNum (int (length (filter (\<lambda>p. student_query regex a (snd p)) (students s))))),
                             (''pages'', JNum ((int (length (filter (\<lambda>p. student_query regex a (snd p)) (students s)))
                                                + lim - 1) div lim))])])
      \<and> (\<forall>p \<in> set (student_page s regex a pg lim).
            p \<in> set (students s)
            \<and> jfield (JObj ((''_id'', JStr (fst p)) # snd p)) ''hashed_password'' = map_of (snd p) ''hashed_password''
            \<and> jfield (JObj ((''_id'', JStr (fst p)) # snd p)) ''initial_password'' = map_of (snd p) ''initial_password'')
      \<and> (pg = 1 \<and> int (length (filter (\<lambda>p. student_query regex a (snd p)) (students s))) \<le> lim \<longrightarrow>
            set (student_page s regex a pg lim) = {p \<in> set (students s). student_query regex a (snd p)}))
   \<and> (resolve_student (students s) sid = Some (Some q) \<longrightarrow>
      get_student s sid =
        (200, JObj [(''success'', JBool True),
                    (''data'', JObj ((''_id'', JStr (fst q)) # AList.delete ''hashed_password'' (snd q)))])
      \<and> q \<in> set (students s)
      \<and> (map_of (snd q) ''student_id'' = Some (JStr sid) \<or> ObjectId sid = Some (fst q))
      \<and> jfield (JObj ((''_id'', JStr (fst q)) # AList.delete ''hashed_password'' (snd q))) ''hashed_password'' = None
      \<and> jfield (JObj ((''_id'', JStr (fst q)) # AList.delete ''hashed_password'' (snd q))) ''initial_password''
           = map_of (snd q) ''initial_password'')"
proof (intro conjI impI)
  assume h: "page a = Some pg \<and> limit a = Some lim \<and> 0 \<le> (pg - 1) * lim \<and> lim \<noteq> 0"
  then show "get_all_students s regex a =
        (200, JObj [(''success'', JBool True),
                    (''data'', JList (map (\<lambda>p. JObj ((''_id'', JStr (fst p)) # snd p))
                                         (student_page s regex a pg lim))),
                    (''pagination'',
                       JObj [(''page'', JNum pg), (''limit'', JNum lim),
                             (''total'', JNum (int (length (filter (\<lambda>p. student_query regex a (snd p)) (students s))))),
                             (''pages'', JNum ((int (length (filter (\<lambda>p. student_query regex a (snd p)) (students s)))
                                                + lim - 1) div lim))])])"
    by (simp add: get_all_students_def Let_def student_page_def serialize_fetched)
  show "\<forall>p \<in> set (student_page s regex a pg lim).
            p \<in> set (students s)
            \<and> jfield (JObj ((''_id'', JStr (fst p)) # snd p)) ''hashed_password'' = map_of (snd p) ''hashed_password''
            \<and> jfield (JObj ((''_id'', JStr (fst p)) # snd p)) ''initial_password'' = map_of (snd p) ''initial_password''"
    using student_page_stored [of s regex a pg lim] by auto
  assume "pg = 1 \<and> int (length (filter (\<lambda>p. student_query regex a (snd p)) (students s))) \<le> lim"
  with h show "set (student_page s regex a pg lim) = {p \<in> set (students s). student_query regex a (snd p)}"
    by (simp add: student_page_complete)
next
  assume r: "resolve_student (students s) sid = Some (Some q)"
  then show "get_student s sid =
        (200, JObj [(''success'', JBool True),
                    (''data'', JObj ((''_id'', JStr (fst q)) # AList.delete ''hashed_password'' (snd q)))])"
    by (simp add: get_student_def Let_def fetched_def serialize_document_def)
  from resolve_student_asked [OF r]
  show "q \<in> set (students s)"
    and "map_of (snd q) ''student_id'' = Some (JStr sid) \<or> ObjectId sid = Some (fst q)"
    by auto
  show "jfield (JObj ((''_id'', JStr (fst q)) # AList.delete ''hashed_password'' (snd q))) ''hashed_password'' = None"
    by (simp add: delete_conv')
  show "jfield (JObj ((''_id'', JStr (fst q)) # AList.delete ''hashed_password'' (snd q))) ''initial_password''
           = map_of (snd q) ''initial_password''"
    by (simp add: delete_conv')
qed


theorem student_responses_credentials_witness:
  "get_all_students ex_school_db (\<lambda>p v. False) ex_args =
     (200, JObj [(''success'', JBool True),
                 (''data'', JList [JObj [(''_id'', JStr ''5f1d7f3e9b1e8a0012345679''),
                                         (''student_id'', JStr ''STU20240101ABCDEF''), (''name'', JStr ''Cy''),
                                         (''email'', JStr ''cy@school.edu''), (''class'', JStr ''10''),
                                         (''section'', JStr ''A''),
                                         (''hashed_password'', JStr ''$2b$12$hash''),
                                         (''initial_password'', JStr ''1a2b3c4d''),
                                         (''created_at'', JTime 3), (''updated_at'', JTime 3)]]),
                 (''pagination'', JObj [(''page'', JNum 1), (''limit'', JNum 10),
                                        (''total'', JNum 1), (''pages'', JNum 1)])])
   \<and> get_student ex_school_db ''STU20240101ABCDEF'' =
     (200, JObj [(''success'', JBool True),
                 (''data'', JObj [(''_id'', JStr ''5f1d7f3e9b1e8a0012345679''),
                                  (''student_id'', JStr ''STU20240101ABCDEF''), (''name'', JStr ''Cy''),
                                  (''email'', JStr ''cy@school.edu''), (''class'', JStr ''10''),
                                  (''section'', JStr ''A''),
                                  (''initial_password'', JStr ''1a2b3c4d''),
                                  (''created_at'', JTime 3), (''updated_at'', JTime 3)])])
   \<and> map_of ex_student ''hashed_password'' = Some (JStr ''$2b$12$hash'')
   \<and> map_of ex_student ''initial_password'' = Some (JStr ''1a2b3c4d'')"
proof -
  have args: "page ex_args = Some 1 \<and> limit ex_args = Some 10 \<and> (0::int) \<le> (1 - 1) * 10 \<and> (10::int) \<noteq> 0"
    by (simp add: ex_args_def)
  have pg: "student_page ex_school_db (\<lambda>p v. False) ex_args 1 10 = [(ex_oid2, ex_student)]"
    by code_simp
  have total: "length (filter (\<lambda>p. student_query (\<lambda>p v. False) ex_args (snd p)) (students ex_school_db)) = 1"
    by code_simp
  have res: "resolve_student (students ex_school_db) ''STU20240101ABCDEF'' = Some (Some (ex_oid2, ex_student))"
    by code_simp
  have del: "AList.delete ''hashed_password'' ex_student =
      [(''student_id'', JStr ''STU20240101ABCDEF''), (''name'', JStr ''Cy''),
       (''email'', JStr ''cy@school.edu''), (''class'', JStr ''10''), (''section'', JStr ''A''),
       (''initial_password'', JStr ''1a2b3c4d''), (''created_at'', JTime 3), (''updated_at'', JTime 3)]"
    by (simp add: ex_student_def)
  show ?thesis
    using student_responses_credentials
            [of ex_args 1 10 ex_school_db "\<lambda>p v. False" "''STU20240101ABCDEF''" "(ex_oid2, ex_student)"]
          args res
    by (simp add: pg total del) (simp add: ex_student_def ex_oid2_def)
qed


subsection \<open>Updates that change nothing\<close>

lemma update_one_unmodified:
  assumes "modified_count (snd (update_one coll oid upd)) = 0"
  shows "update_one coll oid upd = (coll, \<lparr>matched_count = (if map_of coll oid = None then 0 else 1), modified_count = 0\<rparr>)"
  using assms
  by (auto simp: update_one_def Let_def update_triv split: option.splits if_splits)

lemma update_one_unique_unmodified:
  assumes "modified_count (snd (update_one coll oid upd)) = 0"
  shows "update_one_unique keys coll oid upd = Some (update_one coll oid upd)"
proof (cases "map_of coll oid")
  case None
  then show ?thesis by (simp add: update_one_unique_def)
next
  case (Some d)
  with assms have "set_fields upd d = d"
    by (auto simp: update_one_def Let_def split: if_splits)
  with Some show ?thesis
    by (simp add: update_one_unique_def duplicate_key_def)
qed

text \<open>
  C3, as stated, fails on the teacher path: an update that resubmits the stored name
  reports success, with the message \<open>No changes made\<close> when the write modified nothing
  and with \<open>Teacher updated successfully\<close> when only the \<open>updated_at\<close> stamp moved.
\<close>

theorem failing_update_counterexample:
  "snd (update_teacher ex_teacher_db ex_python (ex_clock\<lparr>utcnow := 5\<rparr>) ex_admin ex_oid3
          (JObj [(''name'', JStr ''Eve'')]))
     = (200, JObj [(''success'', JBool True), (''message'', JStr ''No changes made'')])
   \<and> snd (update_teacher ex_teacher_db ex_python ex_clock ex_admin ex_oid3
          (JObj [(''name'', JStr ''Eve'')]))
     = (200, JObj [(''success'', JBool True), (''message'', JStr ''Teacher updated successfully'')])"
  by code_simp

text \<open>
  C3, amended. For an update of an existing record whose write modifies nothing
  (\<open>modified_count = 0\<close>: every written value, the \<open>updated_at\<close> stamp included, is
  already stored), the student update fails with 400 \<open>No changes made\<close> and the teacher
  update answers 200 with \<open>success\<close> true and the message \<open>No changes made\<close>; the store
  is left as it was. The written values are the handler's \<open>update_data\<close>, whatever the
  body: for a student it may resubmit the stored email.
\<close>

theorem no_change_responses:
  "(resolve_student (students s) student_id = Some (Some (oid, student))
      \<and> student_update_data (students s) student data = Inr upd
      \<and> modified_count (snd (update_one (students s) oid
                                 (upd @ [(''updated_at'', JTime (utcnow clk))]))) = 0
     \<longrightarrow> update_student s clk student_id data
           = (s, (400, JObj [(''success'', JBool False), (''error'', JStr ''No changes made'')])))
   \<and> (ObjectId teacher_id = Some toid
      \<and> map_of (teachers s) toid = Some teacher
      \<and> \<not> (user_role a = ''teacher'' \<and> user_id a \<noteq> teacher_id)
      \<and> \<not> (user_role a = ''principal'' \<and> dget teacher ''school_id'' JNull \<noteq> school_id a)
      \<and> merge_fields py (if user_role a = ''teacher'' then self_fields else admin_fields) tdata = Some tupd
      \<and> modified_count (snd (update_one (teachers s) toid
                                 (tupd @ [(''updated_at'', JTime (utcnow clk))]))) = 0
     \<longrightarrow> update_teacher s py clk a teacher_id tdata
           = (s, (200, JObj [(''success'', JBool True), (''message'', JStr ''No changes made'')])))"
proof (intro conjI impI)
  assume h: "resolve_student (students s) student_id = Some (Some (oid, student))
      \<and> student_update_data (students s) student data = Inr upd
      \<and> modified_count (snd (update_one (students s) oid
                                 (upd @ [(''updated_at'', JTime (utcnow clk))]))) = 0"
  then have "update_student s clk student_id data = update_student_write s clk oid upd"
    by (simp add: update_student_def)
  moreover have "update_student_write s clk oid upd = (s, (400, failure ''No changes made''))"
    using h by (simp add: update_student_write_def update_one_unmodified)
  ultimately show "update_student s clk student_id data
           = (s, (400, JObj [(''success'', JBool False), (''error'', JStr ''No changes made'')]))"
    by (simp add: failure_def)
next
  assume h: "ObjectId teacher_id = Some toid
      \<and> map_of (teachers s) toid = Some teacher
      \<and> \<not> (user_role a = ''teacher'' \<and> user_id a \<noteq> teacher_id)
      \<and> \<not> (user_role a = ''principal'' \<and> dget teacher ''school_id'' JNull \<noteq> school_id a)
      \<and> merge_fields py (if user_role a = ''teacher'' then self_fields else admin_fields) tdata = Some tupd
      \<and> modified_count (snd (update_one (teachers s) toid
                                 (tupd @ [(''updated_at'', JTime (utcnow clk))]))) = 0"
  then have u: "update_one_unique teachers_unique (teachers s) toid (tupd @ [(''updated_at'', JTime (utcnow clk))])
              = Some (teachers s, \<lparr>matched_count = 1, modified_count = 0\<rparr>)"
    by (simp add: update_one_unique_unmodified update_one_unmodified)
  show "update_teacher s py clk a teacher_id tdata
           = (s, (200, JObj [(''success'', JBool True), (''message'', JStr ''No changes made'')]))"
    using h u by (auto simp: update_teacher_def success_def)
qed

theorem no_change_responses_witness:
  "update_student ex_school_db (ex_clock\<lparr>utcnow := 3\<rparr>) ''STU20240101ABCDEF''
       (JObj [(''name'', JStr ''Cy''), (''email'', JStr '' CY@school.edu '')])
     = (ex_school_db, (400, JObj [(''success'', JBool False), (''error'', JStr ''No changes made'')]))
   \<and> update_teacher ex_teacher_db ex_python (ex_clock\<lparr>utcnow := 5\<rparr>) ex_admin ex_oid3
         (JObj [(''name'', JStr ''Eve'')])
     = (ex_teacher_db, (200, JObj [(''success'', JBool True), (''message'', JStr ''No changes made'')]))"
proof -
  have student:
    "resolve_student (students ex_school_db) ''STU20240101ABCDEF'' = Some (Some (ex_oid2, ex_student))
     \<and> student_update_data (students ex_school_db) ex_student
          (JObj [(''name'', JStr ''Cy''), (''email'', JStr '' CY@school.edu '')]) = Inr [(''name'', JStr ''Cy'')]
     \<and> modified_count (snd (update_one (students ex_school_db) ex_oid2
          ([(''name'', JStr ''Cy'')] @ [(''updated_at'', JTime (utcnow (ex_clock\<lparr>utcnow := 3\<rparr>)))]))) = 0"
    by code_simp
  have teacher:
    "ObjectId ex_oid3 = Some ex_oid3
     \<and> map_of (teachers ex_teacher_db) ex_oid3 = Some ex_teacher
     \<and> \<not> (user_role ex_admin = ''teacher'' \<and> user_id ex_admin \<noteq> ex_oid3)
     \<and> \<not> (user_role ex_admin = ''principal'' \<and> dget ex_teacher ''school_id'' JNull \<noteq> school_id ex_admin)
     \<and> merge_fields ex_python (if user_role ex_admin = ''teacher'' then self_fields else admin_fields)
           (JObj [(''name'', JStr ''Eve'')]) = Some [(''name'', JStr ''Eve'')]
     \<and> modified_count (snd (update_one (teachers ex_teacher_db) ex_oid3
          ([(''name'', JStr ''Eve'')] @ [(''updated_at'', JTime (utcnow (ex_clock\<lparr>utcnow := 5\<rparr>)))]))) = 0"
    by code_simp
  from no_change_responses
         [where s = ex_school_db and student_id = "''STU20240101ABCDEF''" and oid = ex_oid2
            and student = ex_student
            and data = "JObj [(''name'', JStr ''Cy''), (''email'', JStr '' CY@school.edu '')]"
            and upd = "[(''name'', JStr ''Cy'')]"
            and clk = "ex_clock\<lparr>utcnow := 3\<rparr>"]
       student
  have 1: "update_student ex_school_db (ex_clock\<lparr>utcnow := 3\<rparr>) ''STU20240101ABCDEF''
       (JObj [(''name'', JStr ''Cy''), (''email'', JStr '' CY@school.edu '')])
     = (ex_school_db, (400, JObj [(''success'', JBool False), (''error'', JStr ''No changes made'')]))"
    by blast
  from no_change_responses
         [where s = ex_teacher_db and clk = "ex_clock\<lparr>utcnow := 5\<rparr>" and teacher_id = ex_oid3
            and toid = ex_oid3 and teacher = ex_teacher and a = ex_admin and py = ex_python
            and tdata = "JObj [(''name'', JStr ''Eve'')]" and tupd = "[(''name'', JStr ''Eve'')]"]
       teacher
  have 2: "update_teacher ex_teacher_db ex_python (ex_clock\<lparr>utcnow := 5\<rparr>) ex_admin ex_oid3
         (JObj [(''name'', JStr ''Eve'')])
     = (ex_teacher_db, (200, JObj [(''success'', JBool True), (''message'', JStr ''No changes made'')]))"
    by blast
  from 1 2 show ?thesis by (rule conjI)
qed

subsection \<open>Bulk import of students\<close>

















subsection \<open>Stamping of \<open>updated_at\<close>\<close>































subsection \<open>Bulk import of teachers\<close>

text \<open>
  C4 fails for the teacher import. \<open>bulk_import_teachers\<close> skips a blank row, records a row
  whose email is already stored as a row error and goes on, and generates an employee id and
  a password for each row it keeps; it never calls \<open>validate_email\<close>. An admin's file with
  the row \<open>Hal, not-an-email, 555, Art\<close> is imported: the row counts as a success and a
  teacher with that email is stored. \<open>register_teacher\<close> answers the same fields with 400
  \<open>Invalid email format\<close>, and \<open>bulk_import_students\<close> records the same email as a row error.
\<close>

theorem teacher_import_accepts_invalid_email:
  "\<not> validate_email ''not-an-email''
   \<and> snd (bulk_import_teachers ex_teacher_db ex_python ex_clock ex_admin JNull ex_gen_password ex_new_ids
             ex_teacher_frame)
       = (200, JObj [(''success'', JBool True),
                     (''message'', JStr ''Bulk import completed. Success: 1, Failed: 1''),
                     (''data'', JObj [(''success_count'', JNum 1), (''error_count'', JNum 1),
                                      (''errors'', JList [JStr ''Row 4: Email eve@school.edu already exists''])])])
   \<and> map (\<lambda>p. dget (snd p) ''email'' JNull)
         (teachers (fst (bulk_import_teachers ex_teacher_db ex_python ex_clock ex_admin JNull ex_gen_password
                           ex_new_ids ex_teacher_frame)))
       = [JStr ''eve@school.edu'', JStr ''not-an-email'']
   \<and> register_teacher ex_teacher_db ex_python ex_clock ex_admin ''Tmp!234567'' ex_oid2 ex_invalid_teacher
       = (ex_teacher_db, (400, failure ''Invalid email format''))
   \<and> bulk_import_students ex_teacher_db ex_python ex_clock ex_gen_id ex_gen_password ex_new_ids ex_invalid_frame
       = (ex_teacher_db, (400, JObj [(''success'', JBool False), (''error'', JStr ''Failed to process file''),
                                     (''details'', JList [JStr ''Row 2: Invalid email format: not-an-email''])]))"
  by code_simp

end
